theory Spec2Isabelle
  imports Main "HOL-Library.Word"
begin

text \<open>
  A model of collectd's MySQL plugin, \<open>src/mysql.c\<close>: the configuration of a database,
  the connection, the read callback \<open>mysql_read\<close> with its row loop and its four
  optional readers, and the notifications about the replica threads. Every function
  takes what it reads from outside as arguments (the global \<open>hostname_g\<close>, the answers
  of the client library) and returns what it does to the outside as a list of effects.
\<close>

section \<open>The C library, as far as the plugin uses it\<close>

text \<open>
  C strings are modelled as \<open>string\<close>; a \<open>char *\<close> that may be \<open>NULL\<close> is a
  \<open>string option\<close>. The comparisons are only ever tested against zero in \<open>mysql.c\<close>, so
  each is modelled by the predicate "the call returns 0".
\<close>

definition strcmp0 :: "string \<Rightarrow> string \<Rightarrow> bool" where
  \<comment> \<open>\<open>strcmp(a, b) == 0\<close>\<close>
  "strcmp0 a b = (a = b)"

definition strncmp0 :: "string \<Rightarrow> string \<Rightarrow> nat \<Rightarrow> bool" where
  \<comment> \<open>\<open>strncmp(a, b, n) == 0\<close>: the first \<open>n\<close> characters agree\<close>
  "strncmp0 a b n = (take n a = take n b)"

definition strlen :: "string \<Rightarrow> nat" where
  "strlen s = length s"

definition tolower :: "char \<Rightarrow> char" where
  \<comment> \<open>the C locale: only \<open>A\<close>..\<open>Z\<close> change\<close>
  "tolower c =
     (let n = (of_char c :: nat) in if 65 \<le> n \<and> n \<le> 90 then char_of (n + 32) else c)"

definition strcasecmp0 :: "string \<Rightarrow> string \<Rightarrow> bool" where
  \<comment> \<open>\<open>strcasecmp(a, b) == 0\<close>\<close>
  "strcasecmp0 a b = (map tolower a = map tolower b)"

definition isspace :: "char \<Rightarrow> bool" where
  \<comment> \<open>space, \<open>\t\<close>, \<open>\n\<close>, \<open>\v\<close>, \<open>\f\<close>, \<open>\r\<close>\<close>
  "isspace c = (let n = (of_char c :: nat) in n = 32 \<or> (9 \<le> n \<and> n \<le> 13))"

definition isdigit :: "char \<Rightarrow> bool" where
  "isdigit c = (let n = (of_char c :: nat) in 48 \<le> n \<and> n \<le> 57)"

fun digits_value :: "string \<Rightarrow> nat \<Rightarrow> nat" where
  \<comment> \<open>the value of the longest prefix of decimal digits, continuing from \<open>acc\<close>\<close>
  "digits_value [] acc = acc"
| "digits_value (c # cs) acc =
     (if isdigit c then digits_value cs (10 * acc + (of_char c - 48)) else acc)"

definition LLONG_MAX :: int where
  "LLONG_MAX = 2 ^ 63 - 1"

definition LLONG_MIN :: int where
  "LLONG_MIN = - (2 ^ 63)"

definition atoll :: "string \<Rightarrow> int" where
  \<comment> \<open>\<open>strtoll(s, NULL, 10)\<close>: white space is skipped, an optional sign is read, then
      the longest run of digits; with no digit the result is 0; a value out of range
      is clamped, as glibc's \<open>strtoll\<close> does\<close>
  "atoll s =
     (case dropWhile isspace s of
        [] \<Rightarrow> 0
      | c # cs \<Rightarrow>
          if c = CHR ''-'' then max LLONG_MIN (- int (digits_value cs 0))
          else if c = CHR ''+'' then min LLONG_MAX (int (digits_value cs 0))
          else min LLONG_MAX (int (digits_value (c # cs) 0)))"




type_synonym ull = "64 word"
  \<comment> \<open>\<open>unsigned long long\<close>\<close>

definition ull_of_atoll :: "string \<Rightarrow> ull" where
  \<comment> \<open>\<open>val = atoll(s)\<close> with \<open>val\<close> an \<open>unsigned long long\<close>: the conversion wraps\<close>
  "ull_of_atoll s = word_of_int (atoll s)"

section \<open>Data\<close>

text \<open>
  \<open>derive_t\<close> is \<open>int64_t\<close>: the 64 bits are kept, \<open>sint\<close> reads them. \<open>gauge_t\<close> is
  \<open>double\<close>; floating point is not modelled, a gauge is the description of the double
  the code computes: \<open>NAN\<close>, the conversion of an integer, or what \<open>atof\<close> reads.
\<close>

type_synonym derive_t = "64 word"

datatype gauge_t = NAN | Double_of_ull ull | Double_of_atof string

datatype value_t = Gauge gauge_t | Derive derive_t

text \<open>
  \<open>value_list_t\<close> and \<open>notification_t\<close> are declared in \<open>plugin.h\<close>; the fields the
  plugin fills are kept. The fixed sizes of their name buffers are not visible from
  \<open>mysql.c\<close>: the fields are strings of any length here.
\<close>

record value_list_t =
  vl_values :: "value_t list"
  vl_host :: string
  vl_plugin :: string
  vl_plugin_instance :: string
  vl_type :: string
  vl_type_instance :: string

datatype severity = NOTIF_FAILURE | NOTIF_WARNING | NOTIF_OKAY

record notification_t =
  n_severity :: "severity option"
  n_message :: string
  n_host :: string
  n_plugin :: string
  n_plugin_instance :: string
  n_type :: string
  n_type_instance :: string

type_synonym MYSQL = nat
  \<comment> \<open>a session object of the client library, by identity\<close>

text \<open>
  \<open>struct mysql_database_s\<close>. The fields \<open>instance\<close> and \<open>alias\<close> are
  \<open>instance_name\<close> and \<open>alias_name\<close> here, the TLS field \<open>key\<close> is \<open>key_file\<close>.
  \<open>instance\<close> is never \<open>NULL\<close> in a database that \<open>mysql_config_database\<close> has
  registered (it asserts so on line 159, and \<open>submit\<close> asserts it again), so the field
  is a string.
\<close>

record mysql_database_t =
  instance_name :: string
  alias_name :: "string option"
  host :: "string option"
  user :: "string option"
  pass :: "string option"
  database :: "string option"
  key_file :: "string option"
  cert :: "string option"
  ca :: "string option"
  capath :: "string option"
  cipher :: "string option"
  socket :: "string option"
  port :: int
  timeout :: int
  primary_stats :: bool
  replica_stats :: bool
  innodb_stats :: bool
  wsrep_stats :: bool
  replica_notif :: bool
  replica_io_running :: bool
  replica_sql_running :: bool
  con :: "MYSQL option"
  is_connected :: bool
  mysql_version :: nat

type_synonym MYSQL_ROW = "string option list"
  \<comment> \<open>the cells of one row; \<open>None\<close> is SQL \<open>NULL\<close>\<close>

type_synonym MYSQL_RES = "MYSQL_ROW list"
  \<comment> \<open>a stored result: the rows \<open>mysql_fetch_row\<close> hands out, in order\<close>

definition mysql_num_fields :: "MYSQL_ROW \<Rightarrow> nat" where
  \<comment> \<open>every row of a result has one cell per column; the plugin asks for the number
      of columns only after it has fetched a row\<close>
  "mysql_num_fields row = length row"

definition cell :: "MYSQL_ROW \<Rightarrow> nat \<Rightarrow> string option" where
  \<comment> \<open>\<open>row[i]\<close>; a cell the row does not have reads like \<open>NULL\<close>\<close>
  "cell row i = (if i < length row then row ! i else None)"

datatype fault = NullDereference | AssertionFailure
  \<comment> \<open>a \<open>NULL\<close> cell handed to \<open>atoll\<close>, \<open>strcmp\<close> or \<open>strncmp\<close>; an \<open>assert\<close>
      that does not hold\<close>

datatype query_outcome = Real_query_failed | Store_result_failed | Stored MYSQL_RES

text \<open>
  What the client library answers during one cycle: the outcome of \<open>mysql_ping\<close>,
  of \<open>mysql_init\<close>, of \<open>mysql_real_connect\<close>, the version of the server, and the
  outcome of each statement.
\<close>

record mysql_client =
  ping_status :: int
  init_result :: "MYSQL option"
  real_connect_ok :: bool
  server_version :: nat
  query_answer :: "string \<Rightarrow> query_outcome"

text \<open>
  Everything a function does to the outside is recorded, in order: calls of the client
  library, values given to \<open>plugin_dispatch_values\<close>, notifications given to
  \<open>plugin_dispatch_notification\<close>. Log lines are not recorded.
\<close>

datatype effect =
    Mysql_ping "MYSQL option"
  | Mysql_close MYSQL
  | Mysql_init
  | Connect_timeout MYSQL "32 word"
  | Mysql_ssl_set MYSQL
  | Mysql_real_connect MYSQL
  | Query string
  | Dispatch_values value_list_t
  | Dispatch_notification notification_t

fun dispatched :: "effect list \<Rightarrow> value_list_t list" where
  "dispatched [] = []"
| "dispatched (Dispatch_values vl # es) = vl # dispatched es"
| "dispatched (_ # es) = dispatched es"

fun notified :: "effect list \<Rightarrow> notification_t list" where
  "notified [] = []"
| "notified (Dispatch_notification n # es) = n # notified es"
| "notified (_ # es) = notified es"

fun queries :: "effect list \<Rightarrow> string list" where
  "queries [] = []"
| "queries (Query q # es) = q # queries es"
| "queries (_ # es) = queries es"

definition hosts :: "effect list \<Rightarrow> string set" where
  \<comment> \<open>the host names on the values and notifications that were dispatched\<close>
  "hosts es = vl_host ` set (dispatched es) \<union> n_host ` set (notified es)"

section \<open>Configuration\<close>

text \<open>
  A block of the configuration (\<open>oconfig_item_t\<close>): its key, its values and its
  children. The plugin itself reads only the number of values and the type of the first
  one; the values are read by the helpers \<open>cf_util_get_string\<close>, \<open>cf_util_get_int\<close>,
  \<open>cf_util_get_boolean\<close> and \<open>cf_util_get_port_number\<close>, which are not in \<open>mysql.c\<close>
  and are parameters here: each gives its status and, for the first three, what it
  stores through the pointer it is given, if it stores anything.
\<close>

datatype oconfig_value_t =
    OCONFIG_TYPE_STRING string
  | OCONFIG_TYPE_NUMBER int
  | OCONFIG_TYPE_BOOLEAN bool

datatype oconfig_item_t =
  Oconfig_item (ci_key: string) (ci_values: "oconfig_value_t list")
    (ci_children: "oconfig_item_t list")

record cf_util =
  cf_util_get_string :: "oconfig_item_t \<Rightarrow> int \<times> string option"
  cf_util_get_int :: "oconfig_item_t \<Rightarrow> int \<times> int option"
  cf_util_get_boolean :: "oconfig_item_t \<Rightarrow> int \<times> bool option"
  cf_util_get_port_number :: "oconfig_item_t \<Rightarrow> int"
  calloc_succeeds :: bool

definition stored :: "'a option \<Rightarrow> 'a \<Rightarrow> 'a" where
  \<comment> \<open>the destination of a helper after the call: what the helper stored, or what
      was there before\<close>
  "stored new old = (case new of None \<Rightarrow> old | Some v \<Rightarrow> v)"

definition stored_string :: "string option \<Rightarrow> string option \<Rightarrow> string option" where
  \<comment> \<open>the same for a \<open>char *\<close> destination, which may have been \<open>NULL\<close> before\<close>
  "stored_string new old = (case new of None \<Rightarrow> old | Some s \<Rightarrow> Some s)"

definition mysql_database_calloc :: "string \<Rightarrow> mysql_database_t" where
  \<comment> \<open>the structure on line 160: zeroed by \<open>calloc\<close>, then lines 135 to 152, then
      the instance name that line 154 stores\<close>
  "mysql_database_calloc name =
     \<lparr>instance_name = name, alias_name = None, host = None, user = None, pass = None,
      database = None, key_file = None, cert = None, ca = None, capath = None,
      cipher = None, socket = None, port = 0, timeout = 0,
      primary_stats = False, replica_stats = False, innodb_stats = False,
      wsrep_stats = False, replica_notif = False,
      replica_io_running = True, replica_sql_running = True,
      con = None, is_connected = False, mysql_version = 0\<rparr>"

definition mysql_config_option ::
  "cf_util \<Rightarrow> oconfig_item_t \<Rightarrow> mysql_database_t \<Rightarrow> int \<times> mysql_database_t" where
  \<comment> \<open>one turn of the loop over the children, lines 163 to 208: the status and the
      structure after it\<close>
  "mysql_config_option cf child db =
     (if strcasecmp0 ''Alias'' (ci_key child) then
        (case cf_util_get_string cf child of
           (status, new) \<Rightarrow> (status, db\<lparr>alias_name := stored_string new (alias_name db)\<rparr>))
      else if strcasecmp0 ''Host'' (ci_key child) then
        (case cf_util_get_string cf child of
           (status, new) \<Rightarrow> (status, db\<lparr>host := stored_string new (host db)\<rparr>))
      else if strcasecmp0 ''User'' (ci_key child) then
        (case cf_util_get_string cf child of
           (status, new) \<Rightarrow> (status, db\<lparr>user := stored_string new (user db)\<rparr>))
      else if strcasecmp0 ''Password'' (ci_key child) then
        (case cf_util_get_string cf child of
           (status, new) \<Rightarrow> (status, db\<lparr>pass := stored_string new (pass db)\<rparr>))
      else if strcasecmp0 ''Port'' (ci_key child) then
        (let status = cf_util_get_port_number cf child
         in if status > 0 then (0, db\<lparr>port := status\<rparr>) else (status, db))
      else if strcasecmp0 ''Socket'' (ci_key child) then
        (case cf_util_get_string cf child of
           (status, new) \<Rightarrow> (status, db\<lparr>socket := stored_string new (socket db)\<rparr>))
      else if strcasecmp0 ''Database'' (ci_key child) then
        (case cf_util_get_string cf child of
           (status, new) \<Rightarrow>
             (status, db\<lparr>database := stored_string new (database db)\<rparr>))
      else if strcasecmp0 ''SSLKey'' (ci_key child) then
        (case cf_util_get_string cf child of
           (status, new) \<Rightarrow>
             (status, db\<lparr>key_file := stored_string new (key_file db)\<rparr>))
      else if strcasecmp0 ''SSLCert'' (ci_key child) then
        (case cf_util_get_string cf child of
           (status, new) \<Rightarrow> (status, db\<lparr>cert := stored_string new (cert db)\<rparr>))
      else if strcasecmp0 ''SSLCA'' (ci_key child) then
        (case cf_util_get_string cf child of
           (status, new) \<Rightarrow> (status, db\<lparr>ca := stored_string new (ca db)\<rparr>))
      else if strcasecmp0 ''SSLCAPath'' (ci_key child) then
        (case cf_util_get_string cf child of
           (status, new) \<Rightarrow> (status, db\<lparr>capath := stored_string new (capath db)\<rparr>))
      else if strcasecmp0 ''SSLCipher'' (ci_key child) then
        (case cf_util_get_string cf child of
           (status, new) \<Rightarrow> (status, db\<lparr>cipher := stored_string new (cipher db)\<rparr>))
      else if strcasecmp0 ''ConnectTimeout'' (ci_key child) then
        (case cf_util_get_int cf child of
           (status, new) \<Rightarrow> (status, db\<lparr>timeout := stored new (timeout db)\<rparr>))
      else if strcasecmp0 ''MasterStats'' (ci_key child) then
        (case cf_util_get_boolean cf child of
           (status, new) \<Rightarrow> (status, db\<lparr>primary_stats := stored new (primary_stats db)\<rparr>))
      else if strcasecmp0 ''SlaveStats'' (ci_key child) then
        (case cf_util_get_boolean cf child of
           (status, new) \<Rightarrow> (status, db\<lparr>replica_stats := stored new (replica_stats db)\<rparr>))
      else if strcasecmp0 ''SlaveNotifications'' (ci_key child) then
        (case cf_util_get_boolean cf child of
           (status, new) \<Rightarrow> (status, db\<lparr>replica_notif := stored new (replica_notif db)\<rparr>))
      else if strcasecmp0 ''InnodbStats'' (ci_key child) then
        (case cf_util_get_boolean cf child of
           (status, new) \<Rightarrow> (status, db\<lparr>innodb_stats := stored new (innodb_stats db)\<rparr>))
      else if strcasecmp0 ''WsrepStats'' (ci_key child) then
        (case cf_util_get_boolean cf child of
           (status, new) \<Rightarrow> (status, db\<lparr>wsrep_stats := stored new (wsrep_stats db)\<rparr>))
      else (- 1, db))"

fun mysql_config_options ::
  "cf_util \<Rightarrow> oconfig_item_t list \<Rightarrow> mysql_database_t \<Rightarrow> int \<times> mysql_database_t" where
  \<comment> \<open>the loop of lines 162 to 212; it stops at the first status that is not 0\<close>
  "mysql_config_options cf [] db = (0, db)"
| "mysql_config_options cf (child # children) db =
     (case mysql_config_option cf child db of
        (status, db') \<Rightarrow>
          if status \<noteq> 0 then (status, db') else mysql_config_options cf children db')"

definition mysql_config_database ::
  "cf_util \<Rightarrow> oconfig_item_t \<Rightarrow> fault + (int \<times> (string \<times> mysql_database_t) option)" where
  \<comment> \<open>the status returned and, when the database is registered with
      \<open>plugin_register_complex_read\<close>, the name of the callback and the structure
      given as its user data\<close>
  "mysql_config_database cf ci =
     (case ci_values ci of
        [OCONFIG_TYPE_STRING _] \<Rightarrow>
          if \<not> calloc_succeeds cf then Inr (- 1, None)
          else
            (case cf_util_get_string cf ci of
               (status, new) \<Rightarrow>
                 if status \<noteq> 0 then Inr (status, None)
                 else
                   (case new of
                      None \<Rightarrow> Inl AssertionFailure
                    | Some name \<Rightarrow>
                        (case mysql_config_options cf (ci_children ci)
                                (mysql_database_calloc name) of
                           (status', db) \<Rightarrow>
                             if status' = 0 then Inr (0, Some (''mysql-'' @ instance_name db, db))
                             else Inr (- 1, None))))
      | _ \<Rightarrow> Inr (- 1, None))"

section \<open>Connection\<close>

definition getconnection ::
  "mysql_client \<Rightarrow> mysql_database_t \<Rightarrow> MYSQL option \<times> mysql_database_t \<times> effect list" where
  \<comment> \<open>line 288 stores the \<open>int\<close> \<open>db->timeout\<close> in the \<open>unsigned int\<close> option
      \<open>connect_timeout\<close> of the session: the conversion wraps\<close>
  "getconnection lib db =
     (if is_connected db \<and> ping_status lib = 0 then (con db, db, [Mysql_ping (con db)])
      else
        let pinged = (if is_connected db then [Mysql_ping (con db)] else []);
            db1 = db\<lparr>is_connected := False\<rparr>;
            closed = (case con db1 of None \<Rightarrow> [] | Some h \<Rightarrow> [Mysql_close h]);
            db2 = db1\<lparr>con := init_result lib\<rparr>
        in case con db2 of
             None \<Rightarrow> (None, db2, pinged @ closed @ [Mysql_init])
           | Some h \<Rightarrow>
               let calls = pinged @ closed @
                     [Mysql_init, Connect_timeout h (word_of_int (timeout db2)), Mysql_ssl_set h,
                      Mysql_real_connect h]
               in if \<not> real_connect_ok lib then (None, db2, calls)
                  else (Some h,
                        db2\<lparr>mysql_version := server_version lib, is_connected := True\<rparr>,
                        calls))"

section \<open>Submitting values\<close>

definition sstrncpy :: "string \<Rightarrow> string" where
  \<comment> \<open>Modelled from the spec: \<open>sstrncpy\<close> (utils/common) and the sizes of the
      destination buffers are not in \<open>mysql.c\<close>; the spec has every label carried as
      it is, so the copy is the string itself.\<close>
  "sstrncpy src = src"

definition set_host :: "string \<Rightarrow> mysql_database_t \<Rightarrow> string" where
  \<comment> \<open>the first argument is the global \<open>hostname_g\<close>; the result is what is left in \<open>buf\<close>\<close>
  "set_host hostname_g db =
     (case alias_name db of
        Some a \<Rightarrow> sstrncpy a
      | None \<Rightarrow>
          if host db = None \<or> strcmp0 '''' (the (host db)) \<or>
             strcmp0 ''127.0.0.1'' (the (host db)) \<or> strcmp0 ''localhost'' (the (host db))
          then sstrncpy hostname_g
          else sstrncpy (the (host db)))"

definition submit ::
  "string \<Rightarrow> string \<Rightarrow> string option \<Rightarrow> value_t list \<Rightarrow> mysql_database_t \<Rightarrow> effect list" where
  "submit hostname_g type type_instance vals db =
     [Dispatch_values
        \<lparr>vl_values = vals,
         vl_host = set_host hostname_g db,
         vl_plugin = sstrncpy ''mysql'',
         vl_plugin_instance = sstrncpy (instance_name db),
         vl_type = sstrncpy type,
         vl_type_instance = (case type_instance of None \<Rightarrow> '''' | Some ti \<Rightarrow> sstrncpy ti)\<rparr>]"

definition gauge_submit ::
  "string \<Rightarrow> string \<Rightarrow> string option \<Rightarrow> gauge_t \<Rightarrow> mysql_database_t \<Rightarrow> effect list" where
  "gauge_submit hostname_g type type_instance v db =
     submit hostname_g type type_instance [Gauge v] db"

definition derive_submit ::
  "string \<Rightarrow> string \<Rightarrow> string option \<Rightarrow> derive_t \<Rightarrow> mysql_database_t \<Rightarrow> effect list" where
  "derive_submit hostname_g type type_instance v db =
     submit hostname_g type type_instance [Derive v] db"

definition traffic_submit ::
  "string \<Rightarrow> derive_t \<Rightarrow> derive_t \<Rightarrow> mysql_database_t \<Rightarrow> effect list" where
  "traffic_submit hostname_g rx tx db =
     submit hostname_g ''mysql_octets'' None [Derive rx, Derive tx] db"

definition exec_query :: "mysql_client \<Rightarrow> string \<Rightarrow> MYSQL_RES option \<times> effect list" where
  "exec_query lib query =
     (case query_answer lib query of
        Real_query_failed \<Rightarrow> (None, [Query query])
      | Store_result_failed \<Rightarrow> (None, [Query query])
      | Stored res \<Rightarrow> (Some res, [Query query]))"

section \<open>Running a function: its effects and its outcome\<close>

text \<open>
  A run is the list of effects, in order, and the outcome: the value returned, or the
  fault at which the process stops. Effects that came before a fault stay recorded.
\<close>

type_synonym 'a run = "effect list \<times> (fault + 'a)"

definition then_run :: "'a run \<Rightarrow> ('a \<Rightarrow> 'b run) \<Rightarrow> 'b run" where
  \<comment> \<open>one statement after another\<close>
  "then_run m f =
     (case m of
        (es, Inl x) \<Rightarrow> (es, Inl x)
      | (es, Inr a) \<Rightarrow> (case f a of (es', r) \<Rightarrow> (es @ es', r)))"

section \<open>Primary and replica status\<close>

definition mysql_read_primary_stats ::
  "string \<Rightarrow> mysql_database_t \<Rightarrow> mysql_client \<Rightarrow> int run" where
  "mysql_read_primary_stats hostname_g db lib =
     (let query = ''SHOW MASTER STATUS''; (res, asked) = exec_query lib query in
      case res of
        None \<Rightarrow> (asked, Inr (- 1))
      | Some [] \<Rightarrow> (asked, Inr (- 1))
      | Some (row # _) \<Rightarrow>
          if mysql_num_fields row < 2 then (asked, Inr (- 1))
          else (case cell row 1 of
                  None \<Rightarrow> (asked, Inl NullDereference)
                | Some position \<Rightarrow>
                    (asked @
                       derive_submit hostname_g ''mysql_log_position'' (Some ''master-bin'')
                         (ull_of_atoll position) db,
                     Inr 0)))"

definition READ_MASTER_LOG_POS_IDX :: nat where
  "READ_MASTER_LOG_POS_IDX = 6"

definition SLAVE_IO_RUNNING_IDX :: nat where
  "SLAVE_IO_RUNNING_IDX = 10"

definition SLAVE_SQL_RUNNING_IDX :: nat where
  "SLAVE_SQL_RUNNING_IDX = 11"

definition EXEC_MASTER_LOG_POS_IDX :: nat where
  "EXEC_MASTER_LOG_POS_IDX = 21"

definition SECONDS_BEHIND_MASTER_IDX :: nat where
  "SECONDS_BEHIND_MASTER_IDX = 32"

definition double_of_bool :: "bool \<Rightarrow> gauge_t" where
  \<comment> \<open>the \<open>int\<close> 0 or 1 of a C condition, converted to \<open>double\<close>\<close>
  "double_of_bool b = Double_of_ull (if b then 1 else 0)"

definition replica_stats_values ::
  "string \<Rightarrow> mysql_database_t \<Rightarrow> MYSQL_ROW \<Rightarrow> unit run" where
  \<comment> \<open>the body of \<open>if (db->replica_stats)\<close>, lines 474 to 496\<close>
  "replica_stats_values hostname_g db row =
     (let running =
            gauge_submit hostname_g ''bool'' (Some ''slave-sql-running'')
              (double_of_bool (cell row SLAVE_SQL_RUNNING_IDX \<noteq> None \<and>
                 strcasecmp0 (the (cell row SLAVE_SQL_RUNNING_IDX)) ''yes'')) db @
            gauge_submit hostname_g ''bool'' (Some ''slave-io-running'')
              (double_of_bool (cell row SLAVE_IO_RUNNING_IDX \<noteq> None \<and>
                 strcasecmp0 (the (cell row SLAVE_IO_RUNNING_IDX)) ''yes'')) db
      in case cell row READ_MASTER_LOG_POS_IDX of
           None \<Rightarrow> (running, Inl NullDereference)
         | Some read_pos \<Rightarrow>
             let slave_read =
                   derive_submit hostname_g ''mysql_log_position'' (Some ''slave-read'')
                     (ull_of_atoll read_pos) db
             in (case cell row EXEC_MASTER_LOG_POS_IDX of
                   None \<Rightarrow> (running @ slave_read, Inl NullDereference)
                 | Some exec_pos \<Rightarrow>
                     (running @ slave_read @
                        derive_submit hostname_g ''mysql_log_position'' (Some ''slave-exec'')
                          (ull_of_atoll exec_pos) db @
                        (case cell row SECONDS_BEHIND_MASTER_IDX of
                           None \<Rightarrow> []
                         | Some secs \<Rightarrow>
                             gauge_submit hostname_g ''time_offset'' None
                               (Double_of_atof secs) db),
                      Inr ())))"

definition replica_notification :: "string \<Rightarrow> mysql_database_t \<Rightarrow> notification_t" where
  \<comment> \<open>\<open>n\<close> as initialised on line 500, with host and plugin instance filled in
      (lines 508 to 512); the time stamp is left out\<close>
  "replica_notification hostname_g db =
     \<lparr>n_severity = None, n_message = [], n_host = set_host hostname_g db,
      n_plugin = ''mysql'', n_plugin_instance = sstrncpy (instance_name db),
      n_type = ''time_offset'', n_type_instance = []\<rparr>"

definition replica_notify_io ::
  "notification_t \<Rightarrow> string option \<Rightarrow> mysql_database_t \<Rightarrow>
     notification_t \<times> mysql_database_t \<times> effect list" where
  \<comment> \<open>lines 514 to 528\<close>
  "replica_notify_io n io db =
     (if (io = None \<or> \<not> strcasecmp0 (the io) ''yes'') \<and> replica_io_running db then
        let n' = n\<lparr>n_severity := Some NOTIF_WARNING,
                   n_message := ''replica I/O thread not started or not connected to primary''\<rparr>
        in (n', db\<lparr>replica_io_running := False\<rparr>, [Dispatch_notification n'])
      else if (io \<noteq> None \<and> strcasecmp0 (the io) ''yes'') \<and> \<not> replica_io_running db then
        let n' = n\<lparr>n_severity := Some NOTIF_OKAY,
                   n_message := ''replica I/O thread started and connected to primary''\<rparr>
        in (n', db\<lparr>replica_io_running := True\<rparr>, [Dispatch_notification n'])
      else (n, db, []))"

definition replica_notify_sql ::
  "notification_t \<Rightarrow> string option \<Rightarrow> mysql_database_t \<Rightarrow>
     notification_t \<times> mysql_database_t \<times> effect list" where
  \<comment> \<open>lines 530 to 542\<close>
  "replica_notify_sql n sql db =
     (if (sql = None \<or> \<not> strcasecmp0 (the sql) ''yes'') \<and> replica_sql_running db then
        let n' = n\<lparr>n_severity := Some NOTIF_WARNING,
                   n_message := ''replica SQL thread not started''\<rparr>
        in (n', db\<lparr>replica_sql_running := False\<rparr>, [Dispatch_notification n'])
      else if (sql \<noteq> None \<and> strcasecmp0 (the sql) ''yes'') \<and> \<not> replica_sql_running db then
        let n' = n\<lparr>n_severity := Some NOTIF_OKAY,
                   n_message := ''replica SQL thread started''\<rparr>
        in (n', db\<lparr>replica_sql_running := True\<rparr>, [Dispatch_notification n'])
      else (n, db, []))"

definition replica_notif_step ::
  "string \<Rightarrow> mysql_database_t \<Rightarrow> MYSQL_ROW \<Rightarrow> mysql_database_t \<times> effect list" where
  \<comment> \<open>the body of \<open>if (db->replica_notif)\<close>, lines 500 to 542\<close>
  "replica_notif_step hostname_g db row =
     (let n = replica_notification hostname_g db;
          io = cell row SLAVE_IO_RUNNING_IDX;
          sql = cell row SLAVE_SQL_RUNNING_IDX;
          (n1, db1, told_io) = replica_notify_io n io db;
          (n2, db2, told_sql) = replica_notify_sql n1 sql db1
      in (db2, told_io @ told_sql))"

definition mysql_read_replica_stats ::
  "string \<Rightarrow> mysql_database_t \<Rightarrow> mysql_client \<Rightarrow> (int \<times> mysql_database_t) run" where
  "mysql_read_replica_stats hostname_g db lib =
     (let query = ''SHOW SLAVE STATUS''; (res, asked) = exec_query lib query in
      case res of
        None \<Rightarrow> (asked, Inr (- 1, db))
      | Some [] \<Rightarrow> (asked, Inr (- 1, db))
      | Some (row # _) \<Rightarrow>
          if mysql_num_fields row < 33 then (asked, Inr (- 1, db))
          else
            then_run (asked, Inr ()) (\<lambda>_.
            then_run (if replica_stats db then replica_stats_values hostname_g db row
                      else ([], Inr ())) (\<lambda>_.
              let (db', told) =
                    (if replica_notif db then replica_notif_step hostname_g db row
                     else (db, []))
              in (told, Inr (0, db')))))"

section \<open>InnoDB metrics and wsrep status\<close>

datatype ds_type = DS_TYPE_COUNTER | DS_TYPE_GAUGE | DS_TYPE_DERIVE

type_synonym metric = "string \<times> string \<times> ds_type"
  \<comment> \<open>\<open>key\<close>, \<open>type\<close>, \<open>ds_type\<close>\<close>

fun metrics_scan :: "metric list \<Rightarrow> string \<Rightarrow> metric option" where
  \<comment> \<open>the \<open>for\<close> loop over \<open>metrics[i]\<close>: the first entry with the key, \<open>None\<close> when the scan
      ends on the \<open>NULL\<close> entry\<close>
  "metrics_scan [] key = None"
| "metrics_scan (m # ms) key = (if strcmp0 (fst m) key then Some m else metrics_scan ms key)"

definition innodb_metrics :: "metric list" where
  "innodb_metrics =
     [(''metadata_mem_pool_size'', ''bytes'', DS_TYPE_GAUGE),
      (''lock_deadlocks'', ''mysql_locks'', DS_TYPE_DERIVE),
      (''lock_timeouts'', ''mysql_locks'', DS_TYPE_DERIVE),
      (''lock_row_lock_current_waits'', ''mysql_locks'', DS_TYPE_DERIVE),
      (''buffer_pool_size'', ''bytes'', DS_TYPE_GAUGE),
      (''os_log_bytes_written'', ''operations'', DS_TYPE_DERIVE),
      (''os_log_pending_fsyncs'', ''operations'', DS_TYPE_DERIVE),
      (''os_log_pending_writes'', ''operations'', DS_TYPE_DERIVE),
      (''trx_rseg_history_len'', ''gauge'', DS_TYPE_GAUGE),
      (''adaptive_hash_searches'', ''operations'', DS_TYPE_DERIVE),
      (''file_num_open_files'', ''gauge'', DS_TYPE_GAUGE),
      (''ibuf_merges_insert'', ''operations'', DS_TYPE_DERIVE),
      (''ibuf_merges_delete_mark'', ''operations'', DS_TYPE_DERIVE),
      (''ibuf_merges_delete'', ''operations'', DS_TYPE_DERIVE),
      (''ibuf_merges_discard_insert'', ''operations'', DS_TYPE_DERIVE),
      (''ibuf_merges_discard_delete_mark'', ''operations'', DS_TYPE_DERIVE),
      (''ibuf_merges_discard_delete'', ''operations'', DS_TYPE_DERIVE),
      (''ibuf_merges_discard_merges'', ''operations'', DS_TYPE_DERIVE),
      (''ibuf_size'', ''bytes'', DS_TYPE_GAUGE),
      (''innodb_activity_count'', ''gauge'', DS_TYPE_GAUGE),
      (''innodb_rwlock_s_spin_waits'', ''operations'', DS_TYPE_DERIVE),
      (''innodb_rwlock_x_spin_waits'', ''operations'', DS_TYPE_DERIVE),
      (''innodb_rwlock_s_spin_rounds'', ''operations'', DS_TYPE_DERIVE),
      (''innodb_rwlock_x_spin_rounds'', ''operations'', DS_TYPE_DERIVE),
      (''innodb_rwlock_s_os_waits'', ''operations'', DS_TYPE_DERIVE),
      (''innodb_rwlock_x_os_waits'', ''operations'', DS_TYPE_DERIVE),
      (''dml_reads'', ''operations'', DS_TYPE_DERIVE),
      (''dml_inserts'', ''operations'', DS_TYPE_DERIVE),
      (''dml_deletes'', ''operations'', DS_TYPE_DERIVE),
      (''dml_updates'', ''operations'', DS_TYPE_DERIVE)]"

definition innodb_row ::
  "string \<Rightarrow> mysql_database_t \<Rightarrow> string \<Rightarrow> ull \<Rightarrow> effect list" where
  \<comment> \<open>the loop body of \<open>mysql_read_innodb_stats\<close> after \<open>key\<close> and \<open>val\<close> are read\<close>
  "innodb_row hostname_g db key val =
     (case metrics_scan innodb_metrics key of
        None \<Rightarrow> []
      | Some (_, type, ds) \<Rightarrow>
          (case ds of
             DS_TYPE_COUNTER \<Rightarrow> derive_submit hostname_g type (Some key) val db
           | DS_TYPE_GAUGE \<Rightarrow> gauge_submit hostname_g type (Some key) (Double_of_ull val) db
           | DS_TYPE_DERIVE \<Rightarrow> derive_submit hostname_g type (Some key) val db))"

fun innodb_rows :: "string \<Rightarrow> mysql_database_t \<Rightarrow> MYSQL_RES \<Rightarrow> unit run" where
  \<comment> \<open>\<open>while ((row = mysql_fetch_row(res)))\<close> of \<open>mysql_read_innodb_stats\<close>\<close>
  "innodb_rows hostname_g db [] = ([], Inr ())"
| "innodb_rows hostname_g db (row # rows) =
     (case cell row 1 of
        None \<Rightarrow> ([], Inl NullDereference)
      | Some v \<Rightarrow>
          (case cell row 0 of
             None \<Rightarrow> ([], Inl NullDereference)
           | Some key \<Rightarrow>
               then_run (innodb_row hostname_g db key (ull_of_atoll v), Inr ())
                 (\<lambda>_. innodb_rows hostname_g db rows)))"

definition innodb_query :: "nat \<Rightarrow> string" where
  \<comment> \<open>lines 607 to 612; \<open>CHR 0x27\<close> is the closing quote of the statement\<close>
  "innodb_query version =
     (if version \<ge> 100500
      then ''SELECT name, count, type FROM information_schema.innodb_metrics WHERE enabled''
      else ''SELECT name, count, type FROM information_schema.innodb_metrics WHERE status = 'enabled'' @
             [CHR 0x27])"

definition mysql_read_innodb_stats ::
  "string \<Rightarrow> mysql_database_t \<Rightarrow> mysql_client \<Rightarrow> int run" where
  "mysql_read_innodb_stats hostname_g db lib =
     (let query = innodb_query (mysql_version db); (res, asked) = exec_query lib query in
      case res of
        None \<Rightarrow> (asked, Inr (- 1))
      | Some rows \<Rightarrow>
          then_run (asked, Inr ()) (\<lambda>_.
          then_run (innodb_rows hostname_g db rows) (\<lambda>_. ([], Inr 0))))"

definition wsrep_metrics :: "metric list" where
  "wsrep_metrics =
     [(''wsrep_apply_oooe'', ''operations'', DS_TYPE_DERIVE),
      (''wsrep_apply_oool'', ''operations'', DS_TYPE_DERIVE),
      (''wsrep_causal_reads'', ''operations'', DS_TYPE_DERIVE),
      (''wsrep_commit_oooe'', ''operations'', DS_TYPE_DERIVE),
      (''wsrep_commit_oool'', ''operations'', DS_TYPE_DERIVE),
      (''wsrep_flow_control_recv'', ''operations'', DS_TYPE_DERIVE),
      (''wsrep_flow_control_sent'', ''operations'', DS_TYPE_DERIVE),
      (''wsrep_flow_control_paused'', ''operations'', DS_TYPE_DERIVE),
      (''wsrep_local_bf_aborts'', ''operations'', DS_TYPE_DERIVE),
      (''wsrep_local_cert_failures'', ''operations'', DS_TYPE_DERIVE),
      (''wsrep_local_commits'', ''operations'', DS_TYPE_DERIVE),
      (''wsrep_local_replays'', ''operations'', DS_TYPE_DERIVE),
      (''wsrep_received'', ''operations'', DS_TYPE_DERIVE),
      (''wsrep_replicated'', ''operations'', DS_TYPE_DERIVE),
      (''wsrep_received_bytes'', ''total_bytes'', DS_TYPE_DERIVE),
      (''wsrep_replicated_bytes'', ''total_bytes'', DS_TYPE_DERIVE),
      (''wsrep_apply_window'', ''gauge'', DS_TYPE_GAUGE),
      (''wsrep_commit_window'', ''gauge'', DS_TYPE_GAUGE),
      (''wsrep_cluster_size'', ''gauge'', DS_TYPE_GAUGE),
      (''wsrep_cert_deps_distance'', ''gauge'', DS_TYPE_GAUGE),
      (''wsrep_local_recv_queue'', ''queue_length'', DS_TYPE_GAUGE),
      (''wsrep_local_send_queue'', ''queue_length'', DS_TYPE_GAUGE)]"

definition wsrep_row ::
  "string \<Rightarrow> mysql_database_t \<Rightarrow> string \<Rightarrow> ull \<Rightarrow> effect list" where
  \<comment> \<open>the loop body of \<open>mysql_read_wsrep_stats\<close> after \<open>key\<close> and \<open>val\<close> are read\<close>
  "wsrep_row hostname_g db key val =
     (case metrics_scan wsrep_metrics key of
        None \<Rightarrow> []
      | Some (_, type, ds) \<Rightarrow>
          (case ds of
             DS_TYPE_COUNTER \<Rightarrow> []
           | DS_TYPE_GAUGE \<Rightarrow> gauge_submit hostname_g type (Some key) (Double_of_ull val) db
           | DS_TYPE_DERIVE \<Rightarrow> derive_submit hostname_g type (Some key) val db))"

fun wsrep_rows :: "string \<Rightarrow> mysql_database_t \<Rightarrow> MYSQL_RES \<Rightarrow> unit run" where
  \<comment> \<open>\<open>while ((row = mysql_fetch_row(res)))\<close> of \<open>mysql_read_wsrep_stats\<close>\<close>
  "wsrep_rows hostname_g db [] = ([], Inr ())"
| "wsrep_rows hostname_g db (row # rows) =
     (case cell row 1 of
        None \<Rightarrow> ([], Inl NullDereference)
      | Some v \<Rightarrow>
          (case cell row 0 of
             None \<Rightarrow> ([], Inl NullDereference)
           | Some key \<Rightarrow>
               then_run (wsrep_row hostname_g db key (ull_of_atoll v), Inr ())
                 (\<lambda>_. wsrep_rows hostname_g db rows)))"

definition wsrep_query :: string where
  \<comment> \<open>\<open>CHR 0x27\<close> is the closing quote of the statement\<close>
  "wsrep_query = ''SHOW GLOBAL STATUS LIKE 'wsrep_%'' @ [CHR 0x27]"

definition mysql_read_wsrep_stats ::
  "string \<Rightarrow> mysql_database_t \<Rightarrow> mysql_client \<Rightarrow> int run" where
  \<comment> \<open>the row fetched on line 697 is tested against \<open>NULL\<close> and not used again: the
      loop on line 706 starts with the next fetch\<close>
  "mysql_read_wsrep_stats hostname_g db lib =
     (let query = wsrep_query; (res, asked) = exec_query lib query in
      case res of
        None \<Rightarrow> (asked, Inr (- 1))
      | Some [] \<Rightarrow> (asked, Inr (- 1))
      | Some (row # rows) \<Rightarrow>
          then_run (asked, Inr ()) (\<lambda>_.
          then_run (wsrep_rows hostname_g db rows) (\<lambda>_. ([], Inr 0))))"

section \<open>The read callback\<close>

text \<open>The local variables of \<open>mysql_read\<close> that the row loop fills (lines 741 to 753).\<close>

record read_locals =
  qcache_hits :: derive_t
  qcache_inserts :: derive_t
  qcache_not_cached :: derive_t
  qcache_lowmem_prunes :: derive_t
  qcache_queries_in_cache :: gauge_t
  threads_running :: gauge_t
  threads_connected :: gauge_t
  threads_cached :: gauge_t
  threads_created :: derive_t
  traffic_incoming :: ull
  traffic_outgoing :: ull

definition read_locals_init :: read_locals where
  "read_locals_init =
     \<lparr>qcache_hits = 0, qcache_inserts = 0, qcache_not_cached = 0, qcache_lowmem_prunes = 0,
      qcache_queries_in_cache = NAN,
      threads_running = NAN, threads_connected = NAN, threads_cached = NAN,
      threads_created = 0,
      traffic_incoming = 0, traffic_outgoing = 0\<rparr>"

definition status_query :: "nat \<Rightarrow> string" where
  \<comment> \<open>lines 766 to 768\<close>
  "status_query version = (if version \<ge> 50002 then ''SHOW GLOBAL STATUS'' else ''SHOW STATUS'')"

definition innodb_bpool_row ::
  "string \<Rightarrow> mysql_database_t \<Rightarrow> string \<Rightarrow> ull \<Rightarrow> effect list" where
  \<comment> \<open>the first chain of the \<open>Innodb_\<close> branch, lines 823 to 852\<close>
  "innodb_bpool_row hostname_g db key val =
     (if strcmp0 key ''Innodb_buffer_pool_pages_data'' then
        gauge_submit hostname_g ''mysql_bpool_pages'' (Some ''data'') (Double_of_ull val) db
      else if strcmp0 key ''Innodb_buffer_pool_pages_dirty'' then
        gauge_submit hostname_g ''mysql_bpool_pages'' (Some ''dirty'') (Double_of_ull val) db
      else if strcmp0 key ''Innodb_buffer_pool_pages_flushed'' then
        derive_submit hostname_g ''mysql_bpool_counters'' (Some ''pages_flushed'') val db
      else if strcmp0 key ''Innodb_buffer_pool_pages_free'' then
        gauge_submit hostname_g ''mysql_bpool_pages'' (Some ''free'') (Double_of_ull val) db
      else if strcmp0 key ''Innodb_buffer_pool_pages_misc'' then
        gauge_submit hostname_g ''mysql_bpool_pages'' (Some ''misc'') (Double_of_ull val) db
      else if strcmp0 key ''Innodb_buffer_pool_pages_total'' then
        gauge_submit hostname_g ''mysql_bpool_pages'' (Some ''total'') (Double_of_ull val) db
      else if strcmp0 key ''Innodb_buffer_pool_read_ahead_rnd'' then
        derive_submit hostname_g ''mysql_bpool_counters'' (Some ''read_ahead_rnd'') val db
      else if strcmp0 key ''Innodb_buffer_pool_read_ahead'' then
        derive_submit hostname_g ''mysql_bpool_counters'' (Some ''read_ahead'') val db
      else if strcmp0 key ''Innodb_buffer_pool_read_ahead_evicted'' then
        derive_submit hostname_g ''mysql_bpool_counters'' (Some ''read_ahead_evicted'') val db
      else if strcmp0 key ''Innodb_buffer_pool_read_requests'' then
        derive_submit hostname_g ''mysql_bpool_counters'' (Some ''read_requests'') val db
      else if strcmp0 key ''Innodb_buffer_pool_reads'' then
        derive_submit hostname_g ''mysql_bpool_counters'' (Some ''reads'') val db
      else if strcmp0 key ''Innodb_buffer_pool_wait_free'' then
        derive_submit hostname_g ''mysql_bpool_counters'' (Some ''wait_free'') val db
      else if strcmp0 key ''Innodb_buffer_pool_write_requests'' then
        derive_submit hostname_g ''mysql_bpool_counters'' (Some ''write_requests'') val db
      else if strcmp0 key ''Innodb_buffer_pool_bytes_data'' then
        gauge_submit hostname_g ''mysql_bpool_bytes'' (Some ''data'') (Double_of_ull val) db
      else if strcmp0 key ''Innodb_buffer_pool_bytes_dirty'' then
        gauge_submit hostname_g ''mysql_bpool_bytes'' (Some ''dirty'') (Double_of_ull val) db
      else [])"

definition innodb_data_row ::
  "string \<Rightarrow> mysql_database_t \<Rightarrow> string \<Rightarrow> ull \<Rightarrow> effect list" where
  \<comment> \<open>the second chain of the \<open>Innodb_\<close> branch, lines 855 to 908\<close>
  "innodb_data_row hostname_g db key val =
     (if strcmp0 key ''Innodb_data_fsyncs'' then
        derive_submit hostname_g ''mysql_innodb_data'' (Some ''fsyncs'') val db
      else if strcmp0 key ''Innodb_data_read'' then
        derive_submit hostname_g ''mysql_innodb_data'' (Some ''read'') val db
      else if strcmp0 key ''Innodb_data_reads'' then
        derive_submit hostname_g ''mysql_innodb_data'' (Some ''reads'') val db
      else if strcmp0 key ''Innodb_data_writes'' then
        derive_submit hostname_g ''mysql_innodb_data'' (Some ''writes'') val db
      else if strcmp0 key ''Innodb_data_written'' then
        derive_submit hostname_g ''mysql_innodb_data'' (Some ''written'') val db
      else if strcmp0 key ''Innodb_dblwr_writes'' then
        derive_submit hostname_g ''mysql_innodb_dblwr'' (Some ''writes'') val db
      else if strcmp0 key ''Innodb_dblwr_pages_written'' then
        derive_submit hostname_g ''mysql_innodb_dblwr'' (Some ''written'') val db
      else if strcmp0 key ''Innodb_dblwr_page_size'' then
        gauge_submit hostname_g ''mysql_innodb_dblwr'' (Some ''page_size'') (Double_of_ull val) db
      else if strcmp0 key ''Innodb_log_waits'' then
        derive_submit hostname_g ''mysql_innodb_log'' (Some ''waits'') val db
      else if strcmp0 key ''Innodb_log_write_requests'' then
        derive_submit hostname_g ''mysql_innodb_log'' (Some ''write_requests'') val db
      else if strcmp0 key ''Innodb_log_writes'' then
        derive_submit hostname_g ''mysql_innodb_log'' (Some ''writes'') val db
      else if strcmp0 key ''Innodb_os_log_fsyncs'' then
        derive_submit hostname_g ''mysql_innodb_log'' (Some ''fsyncs'') val db
      else if strcmp0 key ''Innodb_os_log_written'' then
        derive_submit hostname_g ''mysql_innodb_log'' (Some ''written'') val db
      else if strcmp0 key ''Innodb_pages_created'' then
        derive_submit hostname_g ''mysql_innodb_pages'' (Some ''created'') val db
      else if strcmp0 key ''Innodb_pages_read'' then
        derive_submit hostname_g ''mysql_innodb_pages'' (Some ''read'') val db
      else if strcmp0 key ''Innodb_pages_written'' then
        derive_submit hostname_g ''mysql_innodb_pages'' (Some ''written'') val db
      else if strcmp0 key ''Innodb_row_lock_time'' then
        derive_submit hostname_g ''mysql_innodb_row_lock'' (Some ''time'') val db
      else if strcmp0 key ''Innodb_row_lock_waits'' then
        derive_submit hostname_g ''mysql_innodb_row_lock'' (Some ''waits'') val db
      else if strcmp0 key ''Innodb_rows_deleted'' then
        derive_submit hostname_g ''mysql_innodb_rows'' (Some ''deleted'') val db
      else if strcmp0 key ''Innodb_rows_inserted'' then
        derive_submit hostname_g ''mysql_innodb_rows'' (Some ''inserted'') val db
      else if strcmp0 key ''Innodb_rows_read'' then
        derive_submit hostname_g ''mysql_innodb_rows'' (Some ''read'') val db
      else if strcmp0 key ''Innodb_rows_updated'' then
        derive_submit hostname_g ''mysql_innodb_rows'' (Some ''updated'') val db
      else [])"

definition qcache_row :: "string \<Rightarrow> ull \<Rightarrow> read_locals \<Rightarrow> read_locals" where
  \<comment> \<open>the \<open>Qcache_\<close> branch, lines 794 to 803\<close>
  "qcache_row key val l =
     (if strcmp0 key ''Qcache_hits'' then l\<lparr>qcache_hits := val\<rparr>
      else if strcmp0 key ''Qcache_inserts'' then l\<lparr>qcache_inserts := val\<rparr>
      else if strcmp0 key ''Qcache_not_cached'' then l\<lparr>qcache_not_cached := val\<rparr>
      else if strcmp0 key ''Qcache_lowmem_prunes'' then l\<lparr>qcache_lowmem_prunes := val\<rparr>
      else if strcmp0 key ''Qcache_queries_in_cache'' then
        l\<lparr>qcache_queries_in_cache := Double_of_ull val\<rparr>
      else l)"

definition bytes_row :: "string \<Rightarrow> ull \<Rightarrow> read_locals \<Rightarrow> read_locals" where
  \<comment> \<open>the \<open>Bytes_\<close> branch, lines 805 to 808\<close>
  "bytes_row key val l =
     (if strcmp0 key ''Bytes_received'' then l\<lparr>traffic_incoming := traffic_incoming l + val\<rparr>
      else if strcmp0 key ''Bytes_sent'' then l\<lparr>traffic_outgoing := traffic_outgoing l + val\<rparr>
      else l)"

definition threads_row :: "string \<Rightarrow> ull \<Rightarrow> read_locals \<Rightarrow> read_locals" where
  \<comment> \<open>the \<open>Threads_\<close> branch, lines 810 to 817\<close>
  "threads_row key val l =
     (if strcmp0 key ''Threads_running'' then l\<lparr>threads_running := Double_of_ull val\<rparr>
      else if strcmp0 key ''Threads_connected'' then l\<lparr>threads_connected := Double_of_ull val\<rparr>
      else if strcmp0 key ''Threads_cached'' then l\<lparr>threads_cached := Double_of_ull val\<rparr>
      else if strcmp0 key ''Threads_created'' then l\<lparr>threads_created := val\<rparr>
      else l)"

definition sort_row ::
  "string \<Rightarrow> mysql_database_t \<Rightarrow> string \<Rightarrow> ull \<Rightarrow> effect list" where
  \<comment> \<open>the \<open>Sort_\<close> branch, lines 912 to 919\<close>
  "sort_row hostname_g db key val =
     (if strcmp0 key ''Sort_merge_passes'' then
        derive_submit hostname_g ''mysql_sort_merge_passes'' None val db
      else if strcmp0 key ''Sort_rows'' then
        derive_submit hostname_g ''mysql_sort_rows'' None val db
      else if strcmp0 key ''Sort_range'' then
        derive_submit hostname_g ''mysql_sort'' (Some ''range'') val db
      else if strcmp0 key ''Sort_scan'' then
        derive_submit hostname_g ''mysql_sort'' (Some ''scan'') val db
      else [])"

definition mysql_read_row ::
  "string \<Rightarrow> mysql_database_t \<Rightarrow> string \<Rightarrow> ull \<Rightarrow> read_locals \<Rightarrow>
     read_locals \<times> effect list" where
  \<comment> \<open>the body of the row loop after \<open>key\<close> and \<open>val\<close> are read, lines 781 to 927\<close>
  "mysql_read_row hostname_g db key val l =
     (if strncmp0 key ''Com_'' (strlen ''Com_'') then
        (if val = 0 then (l, [])
         else if \<not> strncmp0 key ''Com_stmt_'' (strlen ''Com_stmt_'') then
           (l, derive_submit hostname_g ''mysql_commands''
                 (Some (drop (strlen ''Com_'') key)) val db)
         else (l, []))
      else if strncmp0 key ''Handler_'' (strlen ''Handler_'') then
        (if val = 0 then (l, [])
         else (l, derive_submit hostname_g ''mysql_handler''
                    (Some (drop (strlen ''Handler_'') key)) val db))
      else if strncmp0 key ''Qcache_'' (strlen ''Qcache_'') then (qcache_row key val l, [])
      else if strncmp0 key ''Bytes_'' (strlen ''Bytes_'') then (bytes_row key val l, [])
      else if strncmp0 key ''Threads_'' (strlen ''Threads_'') then (threads_row key val l, [])
      else if strncmp0 key ''Table_locks_'' (strlen ''Table_locks_'') then
        (l, derive_submit hostname_g ''mysql_locks''
              (Some (drop (strlen ''Table_locks_'') key)) val db)
      else if innodb_stats db \<and> strncmp0 key ''Innodb_'' (strlen ''Innodb_'') then
        (l, innodb_bpool_row hostname_g db key val @ innodb_data_row hostname_g db key val)
      else if strncmp0 key ''Select_'' (strlen ''Select_'') then
        (l, derive_submit hostname_g ''mysql_select''
              (Some (drop (strlen ''Select_'') key)) val db)
      else if strncmp0 key ''Sort_'' (strlen ''Sort_'') then (l, sort_row hostname_g db key val)
      else if strncmp0 key ''Slow_queries'' (strlen ''Slow_queries'') then
        (l, derive_submit hostname_g ''mysql_slow_queries'' None val db)
      else if strcmp0 key ''Uptime'' then
        (l, gauge_submit hostname_g ''uptime'' None (Double_of_ull val) db)
      else if strcmp0 key ''Questions'' then
        (l, gauge_submit hostname_g ''questions'' None (Double_of_ull val) db)
      else (l, []))"

fun mysql_read_rows ::
  "string \<Rightarrow> mysql_database_t \<Rightarrow> MYSQL_RES \<Rightarrow> read_locals \<Rightarrow> read_locals run" where
  \<comment> \<open>\<open>while ((row = mysql_fetch_row(res)))\<close> of \<open>mysql_read\<close>, line 774\<close>
  "mysql_read_rows hostname_g db [] l = ([], Inr l)"
| "mysql_read_rows hostname_g db (row # rows) l =
     (case cell row 1 of
        None \<Rightarrow> ([], Inl NullDereference)
      | Some v \<Rightarrow>
          (case cell row 0 of
             None \<Rightarrow> ([], Inl NullDereference)
           | Some key \<Rightarrow>
               (case mysql_read_row hostname_g db key (ull_of_atoll v) l of
                  (l', submitted) \<Rightarrow>
                    then_run (submitted, Inr ())
                      (\<lambda>_. mysql_read_rows hostname_g db rows l'))))"

definition qcache_submit :: "string \<Rightarrow> mysql_database_t \<Rightarrow> read_locals \<Rightarrow> effect list" where
  \<comment> \<open>lines 932 to 940\<close>
  "qcache_submit hostname_g db l =
     (if qcache_hits l \<noteq> 0 \<or> qcache_inserts l \<noteq> 0 \<or> qcache_not_cached l \<noteq> 0 \<or>
         qcache_lowmem_prunes l \<noteq> 0
      then derive_submit hostname_g ''cache_result'' (Some ''qcache-hits'') (qcache_hits l) db @
           derive_submit hostname_g ''cache_result'' (Some ''qcache-inserts'')
             (qcache_inserts l) db @
           derive_submit hostname_g ''cache_result'' (Some ''qcache-not_cached'')
             (qcache_not_cached l) db @
           derive_submit hostname_g ''cache_result'' (Some ''qcache-prunes'')
             (qcache_lowmem_prunes l) db @
           gauge_submit hostname_g ''cache_size'' (Some ''qcache'')
             (qcache_queries_in_cache l) db
      else [])"

definition threads_submit :: "string \<Rightarrow> mysql_database_t \<Rightarrow> read_locals \<Rightarrow> effect list" where
  \<comment> \<open>lines 942 to 948\<close>
  "threads_submit hostname_g db l =
     (if threads_created l \<noteq> 0
      then gauge_submit hostname_g ''threads'' (Some ''running'') (threads_running l) db @
           gauge_submit hostname_g ''threads'' (Some ''connected'') (threads_connected l) db @
           gauge_submit hostname_g ''threads'' (Some ''cached'') (threads_cached l) db @
           derive_submit hostname_g ''total_threads'' (Some ''created'') (threads_created l) db
      else [])"

definition optional_stats ::
  "string \<Rightarrow> mysql_database_t \<Rightarrow> mysql_client \<Rightarrow> mysql_database_t run" where
  \<comment> \<open>lines 952 to 962: the four readers, each behind its flag; the value each returns
      is dropped\<close>
  "optional_stats hostname_g db lib =
     then_run (if mysql_version db \<ge> 50600 \<and> innodb_stats db
               then mysql_read_innodb_stats hostname_g db lib else ([], Inr 0)) (\<lambda>_.
     then_run (if primary_stats db
               then mysql_read_primary_stats hostname_g db lib else ([], Inr 0)) (\<lambda>_.
     then_run (if replica_stats db \<or> replica_notif db
               then mysql_read_replica_stats hostname_g db lib else ([], Inr (0, db)))
       (\<lambda>(_, db').
     then_run (if wsrep_stats db'
               then mysql_read_wsrep_stats hostname_g db' lib else ([], Inr 0)) (\<lambda>_.
     ([], Inr db')))))"

definition mysql_read ::
  "string \<Rightarrow> mysql_client \<Rightarrow> mysql_database_t option \<Rightarrow>
     (int \<times> mysql_database_t option) run" where
  \<comment> \<open>the argument is \<open>ud->data\<close>, \<open>None\<close> when \<open>ud\<close> or \<open>ud->data\<close> is \<open>NULL\<close>; the
      database is returned as the call leaves it\<close>
  "mysql_read hostname_g lib data =
     (case data of
        None \<Rightarrow> ([], Inr (- 1, None))
      | Some db \<Rightarrow>
          (case getconnection lib db of
             (None, db1, connecting) \<Rightarrow> (connecting, Inr (- 1, Some db1))
           | (Some h, db1, connecting) \<Rightarrow>
               (let query = status_query (mysql_version db1);
                    (res, asked) = exec_query lib query
                in (case res of
                      None \<Rightarrow> (connecting @ asked, Inr (- 1, Some db1))
                    | Some rows \<Rightarrow>
                        then_run (connecting @ asked, Inr ()) (\<lambda>_.
                        then_run (mysql_read_rows hostname_g db1 rows read_locals_init) (\<lambda>l.
                        then_run (qcache_submit hostname_g db1 l @
                                  threads_submit hostname_g db1 l @
                                  traffic_submit hostname_g (traffic_incoming l)
                                    (traffic_outgoing l) db1, Inr ()) (\<lambda>_.
                        then_run (optional_stats hostname_g db1 lib) (\<lambda>db2.
                        ([], Inr (0, Some db2))))))))))"

section \<open>Example inputs\<close>

text \<open>
  A database with every collection switched on, not yet connected; it is what
  \<open>mysql_config_database\<close> registers for \<open>example_config\<close> below.
\<close>

definition example_db :: mysql_database_t where
  "example_db =
     \<lparr>instance_name = ''shop'', alias_name = None, host = Some ''db1.example.org'',
      user = Some ''collectd'', pass = None, database = None,
      key_file = None, cert = None, ca = None, capath = None, cipher = None,
      socket = None, port = 3306, timeout = 0,
      primary_stats = True, replica_stats = True, innodb_stats = True, wsrep_stats = True,
      replica_notif = True, replica_io_running = True, replica_sql_running = True,
      con = None, is_connected = False, mysql_version = 0\<rparr>"

definition example_replica_row :: "string option \<Rightarrow> string option \<Rightarrow> MYSQL_ROW" where
  \<comment> \<open>33 cells; only the five that the plugin reads are filled\<close>
  "example_replica_row io sql =
     replicate 6 None @ [Some ''107''] @ replicate 3 None @ [io, sql] @
     replicate 9 None @ [Some ''107''] @ replicate 10 None @ [Some ''0'']"

definition example_client :: "(string \<times> query_outcome) list \<Rightarrow> mysql_client" where
  \<comment> \<open>a server of version 5.7.0 that accepts the connection and answers the listed
      statements; any other statement fails\<close>
  "example_client answers =
     \<lparr>ping_status = 0, init_result = Some 7, real_connect_ok = True, server_version = 50700,
      query_answer =
        (\<lambda>q. case map_of answers q of None \<Rightarrow> Real_query_failed | Some r \<Rightarrow> r)\<rparr>"

definition example_cf_util :: cf_util where
  \<comment> \<open>helpers that accept one value of the right type\<close>
  "example_cf_util =
     \<lparr>cf_util_get_string =
        (\<lambda>ci. case ci_values ci of [OCONFIG_TYPE_STRING s] \<Rightarrow> (0, Some s) | _ \<Rightarrow> (- 1, None)),
      cf_util_get_int =
        (\<lambda>ci. case ci_values ci of [OCONFIG_TYPE_NUMBER n] \<Rightarrow> (0, Some n) | _ \<Rightarrow> (- 1, None)),
      cf_util_get_boolean =
        (\<lambda>ci. case ci_values ci of [OCONFIG_TYPE_BOOLEAN b] \<Rightarrow> (0, Some b) | _ \<Rightarrow> (- 1, None)),
      cf_util_get_port_number =
        (\<lambda>ci. case ci_values ci of
                [OCONFIG_TYPE_NUMBER n] \<Rightarrow> if 1 \<le> n \<and> n \<le> 65535 then n else - 1
              | _ \<Rightarrow> - 1),
      calloc_succeeds = True\<rparr>"

definition example_config :: oconfig_item_t where
  \<comment> \<open>the \<open>Database\<close> block from which \<open>mysql_config_database\<close> builds \<open>example_db\<close>\<close>
  "example_config =
     Oconfig_item ''Database'' [OCONFIG_TYPE_STRING ''shop'']
       [Oconfig_item ''Host'' [OCONFIG_TYPE_STRING ''db1.example.org''] [],
        Oconfig_item ''User'' [OCONFIG_TYPE_STRING ''collectd''] [],
        Oconfig_item ''Port'' [OCONFIG_TYPE_NUMBER 3306] [],
        Oconfig_item ''MasterStats'' [OCONFIG_TYPE_BOOLEAN True] [],
        Oconfig_item ''SlaveStats'' [OCONFIG_TYPE_BOOLEAN True] [],
        Oconfig_item ''slavenotifications'' [OCONFIG_TYPE_BOOLEAN True] [],
        Oconfig_item ''InnodbStats'' [OCONFIG_TYPE_BOOLEAN True] [],
        Oconfig_item ''WsrepStats'' [OCONFIG_TYPE_BOOLEAN True] []]"

definition example_answers :: "(string \<times> query_outcome) list" where
  \<comment> \<open>the server answers every statement of a cycle but the one for the InnoDB metrics\<close>
  "example_answers =
     [(''SHOW GLOBAL STATUS'', Stored [[Some ''Uptime'', Some ''100'']]),
      (''SHOW MASTER STATUS'', Stored [[Some ''bin.000001'', Some ''154'']]),
      (''SHOW SLAVE STATUS'', Stored [example_replica_row (Some ''Yes'') (Some ''Yes'')]),
      (wsrep_query,
       Stored [[Some ''wsrep_ready'', Some ''ON''], [Some ''wsrep_cluster_size'', Some ''3'']])]"

section \<open>Facts about runs and effects\<close>

lemma then_run_Inr [simp]: "then_run (es, Inr a) f = (es @ fst (f a), snd (f a))"
  by (simp add: then_run_def split: prod.splits)

lemma then_run_Inl [simp]: "then_run (es, Inl x) f = (es, Inl x)"
  by (simp add: then_run_def)

lemma then_run_ok: "snd m = Inr a \<Longrightarrow> then_run m f = (fst m @ fst (f a), snd (f a))"
  by (cases m) simp

lemma then_run_fault: "snd m = Inl x \<Longrightarrow> then_run m f = (fst m, Inl x)"
  by (cases m) simp

lemma exec_query_Stored: "query_answer lib q = Stored res \<Longrightarrow> exec_query lib q = (Some res, [Query q])"
  by (simp add: exec_query_def)

lemma notified_append [simp]: "notified (xs @ ys) = notified xs @ notified ys"
  by (induction xs rule: notified.induct) simp_all

lemma dispatched_append [simp]: "dispatched (xs @ ys) = dispatched xs @ dispatched ys"
  by (induction xs rule: dispatched.induct) simp_all

lemma queries_append [simp]: "queries (xs @ ys) = queries xs @ queries ys"
  by (induction xs rule: queries.induct) simp_all

lemma notified_submit [simp]: "notified (submit hn t ti vs db) = []"
  by (simp add: submit_def)

lemma notified_gauge_submit [simp]: "notified (gauge_submit hn t ti v db) = []"
  by (simp add: gauge_submit_def)

lemma notified_derive_submit [simp]: "notified (derive_submit hn t ti v db) = []"
  by (simp add: derive_submit_def)

lemma replica_stats_values_ok:
  "cell row READ_MASTER_LOG_POS_IDX \<noteq> None \<Longrightarrow> cell row EXEC_MASTER_LOG_POS_IDX \<noteq> None \<Longrightarrow>
   snd (replica_stats_values hn db row) = Inr () \<and> notified (fst (replica_stats_values hn db row)) = []"
  by (auto simp: replica_stats_values_def Let_def split: option.splits)

section \<open>The configured database\<close>

lemma mysql_config_option_flags:
  "replica_io_running (snd (mysql_config_option cf child db)) = replica_io_running db"
  "replica_sql_running (snd (mysql_config_option cf child db)) = replica_sql_running db"
  by (simp_all add: mysql_config_option_def Let_def case_prod_beta)

lemma mysql_config_options_flags:
  "replica_io_running (snd (mysql_config_options cf children db)) = replica_io_running db \<and>
   replica_sql_running (snd (mysql_config_options cf children db)) = replica_sql_running db"
proof (induction children arbitrary: db)
  case Nil
  show ?case by simp
next
  case (Cons child children)
  show ?case
    using Cons.IH [of "snd (mysql_config_option cf child db)"]
      mysql_config_option_flags [of cf child db]
    by (simp add: case_prod_beta)
qed

lemma configured_flags:
  assumes "mysql_config_database cf ci = Inr (status, Some (name, db))"
  shows "replica_io_running db \<and> replica_sql_running db"
proof -
  obtain inst where
    "db = snd (mysql_config_options cf (ci_children ci) (mysql_database_calloc inst))"
    using assms
    by (auto simp: mysql_config_database_def case_prod_beta
        split: list.splits oconfig_value_t.splits if_splits option.splits)
  then show ?thesis
    using mysql_config_options_flags [of cf "ci_children ci" "mysql_database_calloc inst"]
    by (simp add: mysql_database_calloc_def)
qed

lemma example_configured:
  "mysql_config_database example_cf_util example_config =
     Inr (0, Some (''mysql-shop'', example_db))"
  by code_simp

section \<open>The replica health tracker\<close>

lemma replica_notify_io_db:
  "fst (snd (replica_notify_io n io db)) =
     db\<lparr>replica_io_running := (io \<noteq> None \<and> strcasecmp0 (the io) ''yes'')\<rparr>"
  by (cases "replica_io_running db"; cases "io \<noteq> None \<and> strcasecmp0 (the io) ''yes''")
     (simp_all add: replica_notify_io_def Let_def)

lemma replica_notify_io_told:
  "snd (snd (replica_notify_io n io db)) =
     (if replica_io_running db = (io \<noteq> None \<and> strcasecmp0 (the io) ''yes'') then []
      else if replica_io_running db then
        [Dispatch_notification (n\<lparr>n_severity := Some NOTIF_WARNING,
           n_message := ''replica I/O thread not started or not connected to primary''\<rparr>)]
      else
        [Dispatch_notification (n\<lparr>n_severity := Some NOTIF_OKAY,
           n_message := ''replica I/O thread started and connected to primary''\<rparr>)])"
  by (cases "replica_io_running db"; cases "io \<noteq> None \<and> strcasecmp0 (the io) ''yes''")
     (simp_all add: replica_notify_io_def Let_def)


lemma replica_notify_io_n:
  "(fst (replica_notify_io n io db))\<lparr>n_severity := s, n_message := m\<rparr> =
     n\<lparr>n_severity := s, n_message := m\<rparr>"
  by (simp add: replica_notify_io_def Let_def)

lemma replica_notify_sql_db:
  "fst (snd (replica_notify_sql n sql db)) =
     db\<lparr>replica_sql_running := (sql \<noteq> None \<and> strcasecmp0 (the sql) ''yes'')\<rparr>"
  by (cases "replica_sql_running db"; cases "sql \<noteq> None \<and> strcasecmp0 (the sql) ''yes''")
     (simp_all add: replica_notify_sql_def Let_def)

lemma replica_notify_sql_told:
  "snd (snd (replica_notify_sql n sql db)) =
     (if replica_sql_running db = (sql \<noteq> None \<and> strcasecmp0 (the sql) ''yes'') then []
      else if replica_sql_running db then
        [Dispatch_notification (n\<lparr>n_severity := Some NOTIF_WARNING,
           n_message := ''replica SQL thread not started''\<rparr>)]
      else
        [Dispatch_notification (n\<lparr>n_severity := Some NOTIF_OKAY,
           n_message := ''replica SQL thread started''\<rparr>)])"
  by (cases "replica_sql_running db"; cases "sql \<noteq> None \<and> strcasecmp0 (the sql) ''yes''")
     (simp_all add: replica_notify_sql_def Let_def)

lemma replica_notif_step_db:
  "fst (replica_notif_step hn db row) =
     db\<lparr>replica_io_running :=
           (cell row SLAVE_IO_RUNNING_IDX \<noteq> None \<and>
            strcasecmp0 (the (cell row SLAVE_IO_RUNNING_IDX)) ''yes''),
        replica_sql_running :=
           (cell row SLAVE_SQL_RUNNING_IDX \<noteq> None \<and>
            strcasecmp0 (the (cell row SLAVE_SQL_RUNNING_IDX)) ''yes'')\<rparr>"
  by (simp add: replica_notif_step_def Let_def case_prod_beta
      replica_notify_io_db replica_notify_sql_db)

lemma replica_notif_step_told:
  "notified (snd (replica_notif_step hn db row)) =
     (if replica_io_running db =
           (cell row SLAVE_IO_RUNNING_IDX \<noteq> None \<and>
            strcasecmp0 (the (cell row SLAVE_IO_RUNNING_IDX)) ''yes'') then []
      else if replica_io_running db then
        [(replica_notification hn db)\<lparr>n_severity := Some NOTIF_WARNING,
           n_message := ''replica I/O thread not started or not connected to primary''\<rparr>]
      else
        [(replica_notification hn db)\<lparr>n_severity := Some NOTIF_OKAY,
           n_message := ''replica I/O thread started and connected to primary''\<rparr>]) @
     (if replica_sql_running db =
           (cell row SLAVE_SQL_RUNNING_IDX \<noteq> None \<and>
            strcasecmp0 (the (cell row SLAVE_SQL_RUNNING_IDX)) ''yes'') then []
      else if replica_sql_running db then
        [(replica_notification hn db)\<lparr>n_severity := Some NOTIF_WARNING,
           n_message := ''replica SQL thread not started''\<rparr>]
      else
        [(replica_notification hn db)\<lparr>n_severity := Some NOTIF_OKAY,
           n_message := ''replica SQL thread started''\<rparr>])"
proof -
  have sql_running_kept:
    "replica_sql_running (fst (snd (replica_notify_io n io db))) = replica_sql_running db" for n io
    by (simp add: replica_notify_io_db)
  show ?thesis
    unfolding replica_notif_step_def Let_def case_prod_beta snd_conv notified_append
      replica_notify_io_told replica_notify_sql_told sql_running_kept
    by (simp add: replica_notify_io_n del: One_nat_def)
qed


lemma mysql_read_replica_stats_row:
  assumes "query_answer lib ''SHOW SLAVE STATUS'' = Stored (row # rest)"
      and "33 \<le> length row"
      and "replica_stats db \<longrightarrow>
             cell row READ_MASTER_LOG_POS_IDX \<noteq> None \<and> cell row EXEC_MASTER_LOG_POS_IDX \<noteq> None"
  shows "mysql_read_replica_stats hn db lib =
     (Query ''SHOW SLAVE STATUS'' #
        (if replica_stats db then fst (replica_stats_values hn db row) else []) @
        (if replica_notif db then snd (replica_notif_step hn db row) else []),
      Inr (0, if replica_notif db then fst (replica_notif_step hn db row) else db))"
proof (cases "replica_stats db")
  case True
  with assms(3) have "snd (replica_stats_values hn db row) = Inr ()"
    using replica_stats_values_ok [of row hn db] by simp
  then show ?thesis
    using assms(1,2) True
    by (simp add: mysql_read_replica_stats_def exec_query_Stored mysql_num_fields_def
        case_prod_beta then_run_ok)
next
  case False
  then show ?thesis
    using assms(1,2)
    by (simp add: mysql_read_replica_stats_def exec_query_Stored mysql_num_fields_def
        case_prod_beta)
qed

lemma example_replica_row_cells:
  "length (example_replica_row io sql) = 33"
  "cell (example_replica_row io sql) READ_MASTER_LOG_POS_IDX = Some ''107''"
  "cell (example_replica_row io sql) EXEC_MASTER_LOG_POS_IDX = Some ''107''"
  "cell (example_replica_row io sql) SLAVE_IO_RUNNING_IDX = io"
  "cell (example_replica_row io sql) SLAVE_SQL_RUNNING_IDX = sql"
  by (simp_all add: example_replica_row_def cell_def nth_append
      READ_MASTER_LOG_POS_IDX_def EXEC_MASTER_LOG_POS_IDX_def SLAVE_IO_RUNNING_IDX_def
      SLAVE_SQL_RUNNING_IDX_def)

text \<open>
  Claim C1. Both stored flags are true in the structure that \<open>mysql_config_database\<close>
  registers, whatever the options of the block. When replica notifications are switched
  on and \<open>SHOW SLAVE STATUS\<close> answers with a row of at least 33 cells,
  \<open>mysql_read_replica_stats\<close> treats the two flags independently of each other. A cell counts as running when it is not \<open>NULL\<close> and
  compares equal to \<open>yes\<close> without regard to case. For the I/O flag: observed not running
  with the stored flag true gives exactly one warning and stores false; observed running
  with the stored flag false gives exactly one notification of severity OKAY and stores
  true; observed equal to stored gives no notification and stores nothing new. The same
  holds for the SQL flag. Reading the same row again from the state just stored gives no
  notification at all. (If replica statistics are collected too, the two log position
  cells must not be \<open>NULL\<close>: \<open>atoll\<close> is applied to them.)
\<close>

theorem replica_health_tracker:
  assumes "replica_notif db"
      and "query_answer lib ''SHOW SLAVE STATUS'' = Stored (row # rest)"
      and "33 \<le> length row"
      and "replica_stats db \<longrightarrow>
             cell row READ_MASTER_LOG_POS_IDX \<noteq> None \<and> cell row EXEC_MASTER_LOG_POS_IDX \<noteq> None"
      and "io = cell row SLAVE_IO_RUNNING_IDX"
      and "sql = cell row SLAVE_SQL_RUNNING_IDX"
      and "io_yes = (io \<noteq> None \<and> strcasecmp0 (the io) ''yes'')"
      and "sql_yes = (sql \<noteq> None \<and> strcasecmp0 (the sql) ''yes'')"
      and "db' = db\<lparr>replica_io_running := io_yes, replica_sql_running := sql_yes\<rparr>"
  shows "(mysql_config_database cf ci = Inr (status, Some (name, db0)) \<longrightarrow>
        replica_io_running db0 \<and> replica_sql_running db0) \<and>
     snd (mysql_read_replica_stats hn db lib) = Inr (0, db') \<and>
     notified (fst (mysql_read_replica_stats hn db lib)) =
       (if replica_io_running db = io_yes then []
        else if replica_io_running db then
          [(replica_notification hn db)\<lparr>n_severity := Some NOTIF_WARNING,
             n_message := ''replica I/O thread not started or not connected to primary''\<rparr>]
        else
          [(replica_notification hn db)\<lparr>n_severity := Some NOTIF_OKAY,
             n_message := ''replica I/O thread started and connected to primary''\<rparr>]) @
       (if replica_sql_running db = sql_yes then []
        else if replica_sql_running db then
          [(replica_notification hn db)\<lparr>n_severity := Some NOTIF_WARNING,
             n_message := ''replica SQL thread not started''\<rparr>]
        else
          [(replica_notification hn db)\<lparr>n_severity := Some NOTIF_OKAY,
             n_message := ''replica SQL thread started''\<rparr>]) \<and>
     snd (mysql_read_replica_stats hn db' lib) = Inr (0, db') \<and>
     notified (fst (mysql_read_replica_stats hn db' lib)) = []"
proof -
  have first: "mysql_read_replica_stats hn db lib =
     (Query ''SHOW SLAVE STATUS'' #
        (if replica_stats db then fst (replica_stats_values hn db row) else []) @
        snd (replica_notif_step hn db row),
      Inr (0, fst (replica_notif_step hn db row)))"
    using mysql_read_replica_stats_row [OF assms(2,3,4), of hn] assms(1) by simp
  have flags: "replica_notif db'" "replica_stats db' = replica_stats db"
    "replica_io_running db' = io_yes" "replica_sql_running db' = sql_yes"
    using assms(1,9) by simp_all
  have again: "mysql_read_replica_stats hn db' lib =
     (Query ''SHOW SLAVE STATUS'' #
        (if replica_stats db' then fst (replica_stats_values hn db' row) else []) @
        snd (replica_notif_step hn db' row),
      Inr (0, fst (replica_notif_step hn db' row)))"
    using mysql_read_replica_stats_row [OF assms(2,3), of db' hn] assms(4) flags by simp
  have quiet: "notified (fst (replica_stats_values hn d row)) = []"
    if "replica_stats d" "replica_stats d = replica_stats db" for d
    using that assms(4) replica_stats_values_ok [of row hn d] by simp
  have step: "fst (replica_notif_step hn db row) = db'"
    by (simp add: replica_notif_step_db assms(5-9))
  have step': "fst (replica_notif_step hn db' row) = db'"
    by (simp add: replica_notif_step_db assms(5-9))
  have told: "notified (snd (replica_notif_step hn db row)) =
       (if replica_io_running db = io_yes then []
        else if replica_io_running db then
          [(replica_notification hn db)\<lparr>n_severity := Some NOTIF_WARNING,
             n_message := ''replica I/O thread not started or not connected to primary''\<rparr>]
        else
          [(replica_notification hn db)\<lparr>n_severity := Some NOTIF_OKAY,
             n_message := ''replica I/O thread started and connected to primary''\<rparr>]) @
       (if replica_sql_running db = sql_yes then []
        else if replica_sql_running db then
          [(replica_notification hn db)\<lparr>n_severity := Some NOTIF_WARNING,
             n_message := ''replica SQL thread not started''\<rparr>]
        else
          [(replica_notification hn db)\<lparr>n_severity := Some NOTIF_OKAY,
             n_message := ''replica SQL thread started''\<rparr>])"
    unfolding replica_notif_step_told assms(5-8) ..
  have told': "notified (snd (replica_notif_step hn db' row)) = []"
    unfolding replica_notif_step_told using flags(3,4) assms(5-8) by simp
  have c1: "snd (mysql_read_replica_stats hn db lib) = Inr (0, db')"
    unfolding first using step by simp
  have c2: "notified (fst (mysql_read_replica_stats hn db lib)) =
      notified (snd (replica_notif_step hn db row))"
    unfolding first using quiet [of db] by simp
  have c3: "snd (mysql_read_replica_stats hn db' lib) = Inr (0, db')"
    unfolding again using step' by simp
  have c4: "notified (fst (mysql_read_replica_stats hn db' lib)) = []"
    unfolding again using quiet [of db'] flags(2) told' by simp
  have c0: "mysql_config_database cf ci = Inr (status, Some (name, db0)) \<longrightarrow>
      replica_io_running db0 \<and> replica_sql_running db0"
    using configured_flags [of cf ci status name db0] by blast
  show ?thesis
    using c0 c1 c2 c3 c4 told by simp
qed

theorem replica_health_tracker_witness:
  "mysql_config_database example_cf_util example_config =
     Inr (0, Some (''mysql-shop'', example_db)) \<and>
   replica_io_running example_db \<and> replica_sql_running example_db \<and>
   notified (fst (mysql_read_replica_stats ''monitor'' example_db
       (example_client [(''SHOW SLAVE STATUS'',
          Stored [example_replica_row (Some ''No'') (Some ''Yes'')])]))) =
     [\<lparr>n_severity = Some NOTIF_WARNING,
       n_message = ''replica I/O thread not started or not connected to primary'',
       n_host = ''db1.example.org'', n_plugin = ''mysql'', n_plugin_instance = ''shop'',
       n_type = ''time_offset'', n_type_instance = []\<rparr>] \<and>
   snd (mysql_read_replica_stats ''monitor'' example_db
       (example_client [(''SHOW SLAVE STATUS'',
          Stored [example_replica_row (Some ''No'') (Some ''Yes'')])])) =
     Inr (0, example_db\<lparr>replica_io_running := False\<rparr>) \<and>
   notified (fst (mysql_read_replica_stats ''monitor'' (example_db\<lparr>replica_io_running := False\<rparr>)
       (example_client [(''SHOW SLAVE STATUS'',
          Stored [example_replica_row (Some ''No'') (Some ''Yes'')])]))) = [] \<and>
   notified (fst (mysql_read_replica_stats ''monitor'' (example_db\<lparr>replica_io_running := False\<rparr>)
       (example_client [(''SHOW SLAVE STATUS'',
          Stored [example_replica_row (Some ''YES'') (Some ''Yes'')])]))) =
     [\<lparr>n_severity = Some NOTIF_OKAY,
       n_message = ''replica I/O thread started and connected to primary'',
       n_host = ''db1.example.org'', n_plugin = ''mysql'', n_plugin_instance = ''shop'',
       n_type = ''time_offset'', n_type_instance = []\<rparr>] \<and>
   snd (mysql_read_replica_stats ''monitor'' (example_db\<lparr>replica_io_running := False\<rparr>)
       (example_client [(''SHOW SLAVE STATUS'',
          Stored [example_replica_row (Some ''YES'') (Some ''Yes'')])])) =
     Inr (0, example_db)"
proof -
  have yes: "strcasecmp0 ''Yes'' ''yes''" "strcasecmp0 ''YES'' ''yes''" "\<not> strcasecmp0 ''No'' ''yes''"
    by code_simp+
  have db: "example_db\<lparr>replica_io_running := False, replica_sql_running := True\<rparr> =
            example_db\<lparr>replica_io_running := False\<rparr>"
    "example_db\<lparr>replica_io_running := False\<rparr>\<lparr>replica_io_running := True, replica_sql_running := True\<rparr> =
            example_db"
    by (simp_all add: example_db_def)
  have n: "replica_notification ''monitor'' (example_db\<lparr>replica_io_running := False\<rparr>) =
      replica_notification ''monitor'' example_db"
    "replica_notification ''monitor'' example_db =
      \<lparr>n_severity = None, n_message = [], n_host = ''db1.example.org'', n_plugin = ''mysql'',
       n_plugin_instance = ''shop'', n_type = ''time_offset'', n_type_instance = []\<rparr>"
    by (simp_all add: replica_notification_def set_host_def sstrncpy_def strcmp0_def example_db_def)
  have stops:
    "replica_notif example_db"
    "query_answer (example_client [(''SHOW SLAVE STATUS'',
          Stored [example_replica_row (Some ''No'') (Some ''Yes'')])]) ''SHOW SLAVE STATUS'' =
       Stored (example_replica_row (Some ''No'') (Some ''Yes'') # [])"
    "33 \<le> length (example_replica_row (Some ''No'') (Some ''Yes''))"
    "replica_stats example_db \<longrightarrow>
       cell (example_replica_row (Some ''No'') (Some ''Yes'')) READ_MASTER_LOG_POS_IDX \<noteq> None \<and>
       cell (example_replica_row (Some ''No'') (Some ''Yes'')) EXEC_MASTER_LOG_POS_IDX \<noteq> None"
    "Some ''No'' = cell (example_replica_row (Some ''No'') (Some ''Yes'')) SLAVE_IO_RUNNING_IDX"
    "Some ''Yes'' = cell (example_replica_row (Some ''No'') (Some ''Yes'')) SLAVE_SQL_RUNNING_IDX"
    "False = (Some ''No'' \<noteq> None \<and> strcasecmp0 (the (Some ''No'')) ''yes'')"
    "True = (Some ''Yes'' \<noteq> None \<and> strcasecmp0 (the (Some ''Yes'')) ''yes'')"
    by (simp_all add: example_replica_row_cells yes example_client_def) (simp add: example_db_def)
  have starts:
    "replica_notif (example_db\<lparr>replica_io_running := False\<rparr>)"
    "query_answer (example_client [(''SHOW SLAVE STATUS'',
          Stored [example_replica_row (Some ''YES'') (Some ''Yes'')])]) ''SHOW SLAVE STATUS'' =
       Stored (example_replica_row (Some ''YES'') (Some ''Yes'') # [])"
    "33 \<le> length (example_replica_row (Some ''YES'') (Some ''Yes''))"
    "replica_stats (example_db\<lparr>replica_io_running := False\<rparr>) \<longrightarrow>
       cell (example_replica_row (Some ''YES'') (Some ''Yes'')) READ_MASTER_LOG_POS_IDX \<noteq> None \<and>
       cell (example_replica_row (Some ''YES'') (Some ''Yes'')) EXEC_MASTER_LOG_POS_IDX \<noteq> None"
    "Some ''YES'' = cell (example_replica_row (Some ''YES'') (Some ''Yes'')) SLAVE_IO_RUNNING_IDX"
    "Some ''Yes'' = cell (example_replica_row (Some ''YES'') (Some ''Yes'')) SLAVE_SQL_RUNNING_IDX"
    "True = (Some ''YES'' \<noteq> None \<and> strcasecmp0 (the (Some ''YES'')) ''yes'')"
    "True = (Some ''Yes'' \<noteq> None \<and> strcasecmp0 (the (Some ''Yes'')) ''yes'')"
    by (simp_all add: example_replica_row_cells yes example_client_def) (simp add: example_db_def)
  have flags: "replica_io_running example_db" "replica_sql_running example_db"
    by (simp_all add: example_db_def)
  note a = replica_health_tracker [OF stops refl, of example_cf_util example_config 0
      "''mysql-shop''" example_db "''monitor''"]
  note b = replica_health_tracker [OF starts refl, of example_cf_util example_config 0
      "''mysql-shop''" example_db "''monitor''"]
  show ?thesis
    using a b example_configured by (simp add: db n flags)
qed

text \<open>
  Claim C10. If \<open>SHOW SLAVE STATUS\<close> answers with no row, or with a row of fewer than 33
  cells, \<open>mysql_read_replica_stats\<close> returns \<open>-1\<close>; its only effect is the query, so no
  value and no notification is dispatched, and the database record, the two stored
  flags included, is unchanged.
\<close>

theorem replica_short_result_is_error:
  assumes "query_answer lib ''SHOW SLAVE STATUS'' = Stored res"
      and "res = [] \<or> mysql_num_fields (hd res) < 33"
  shows "mysql_read_replica_stats hn db lib = ([Query ''SHOW SLAVE STATUS''], Inr (- 1, db))"
  using assms
  by (cases res) (simp_all add: mysql_read_replica_stats_def exec_query_Stored)

theorem replica_short_result_is_error_witness:
  "mysql_read_replica_stats ''monitor'' example_db
     (example_client [(''SHOW SLAVE STATUS'',
        Stored [replicate 10 None @ [Some ''No''] @ replicate 21 None])]) =
     ([Query ''SHOW SLAVE STATUS''], Inr (- 1, example_db)) \<and>
   mysql_read_replica_stats ''monitor'' example_db
     (example_client [(''SHOW SLAVE STATUS'', Stored [])]) =
     ([Query ''SHOW SLAVE STATUS''], Inr (- 1, example_db))"
proof -
  have short:
    "query_answer (example_client [(''SHOW SLAVE STATUS'',
        Stored [replicate 10 None @ [Some ''No''] @ replicate 21 None])]) ''SHOW SLAVE STATUS'' =
      Stored [replicate 10 None @ [Some ''No''] @ replicate 21 None]"
    "[replicate 10 None @ [Some ''No''] @ replicate 21 None] = [] \<or>
     mysql_num_fields (hd [replicate 10 (None :: string option) @ [Some ''No''] @ replicate 21 None]) < 33"
    by (simp_all add: example_client_def mysql_num_fields_def)
  have empty:
    "query_answer (example_client [(''SHOW SLAVE STATUS'', Stored [])]) ''SHOW SLAVE STATUS'' =
      Stored []"
    "([] :: MYSQL_RES) = [] \<or> mysql_num_fields (hd ([] :: MYSQL_RES)) < 33"
    by (simp_all add: example_client_def)
  show ?thesis
    using replica_short_result_is_error [OF short, of "''monitor''" example_db]
      replica_short_result_is_error [OF empty, of "''monitor''" example_db]
    by simp
qed

section \<open>Submitted values\<close>

lemma dispatched_submit:
  "dispatched (submit hn t ti vs db) =
     [\<lparr>vl_values = vs, vl_host = set_host hn db, vl_plugin = ''mysql'',
       vl_plugin_instance = instance_name db, vl_type = t,
       vl_type_instance = (case ti of None \<Rightarrow> [] | Some s \<Rightarrow> s)\<rparr>]"
  by (simp add: submit_def sstrncpy_def split: option.splits)

lemma dispatched_gauge_submit:
  "dispatched (gauge_submit hn t ti v db) =
     [\<lparr>vl_values = [Gauge v], vl_host = set_host hn db, vl_plugin = ''mysql'',
       vl_plugin_instance = instance_name db, vl_type = t,
       vl_type_instance = (case ti of None \<Rightarrow> [] | Some s \<Rightarrow> s)\<rparr>]"
  by (simp add: gauge_submit_def dispatched_submit)

lemma dispatched_derive_submit:
  "dispatched (derive_submit hn t ti v db) =
     [\<lparr>vl_values = [Derive v], vl_host = set_host hn db, vl_plugin = ''mysql'',
       vl_plugin_instance = instance_name db, vl_type = t,
       vl_type_instance = (case ti of None \<Rightarrow> [] | Some s \<Rightarrow> s)\<rparr>]"
  by (simp add: derive_submit_def dispatched_submit)


lemma queries_submit [simp]:
  "queries (submit hn t ti vs db) = []"
  "queries (gauge_submit hn t ti g db) = []"
  "queries (derive_submit hn t ti d db) = []"
  by (simp_all add: submit_def gauge_submit_def derive_submit_def)

section \<open>The wsrep reader\<close>

text \<open>
  Claim C2 says that every row of a wsrep result whose key is in the table gives one
  value, the first row included. The code does not do that: the first row is fetched on
  line 697 for the test against \<open>NULL\<close>, and the loop on line 706 fetches again before
  it looks at a row. With the two rows \<open>wsrep_apply_oooe = 5\<close> and
  \<open>wsrep_apply_oool = 7\<close>, both keys of the table, only the second is submitted; a
  result of the single row \<open>wsrep_cluster_size = 3\<close> submits nothing and returns 0.
\<close>

theorem wsrep_first_row_is_dropped:
  "metrics_scan wsrep_metrics ''wsrep_apply_oooe'' =
     Some (''wsrep_apply_oooe'', ''operations'', DS_TYPE_DERIVE) \<and>
   mysql_read_wsrep_stats ''monitor'' example_db
     (example_client [(wsrep_query,
        Stored [[Some ''wsrep_apply_oooe'', Some ''5''],
                [Some ''wsrep_apply_oool'', Some ''7'']])]) =
     ([Query wsrep_query,
       Dispatch_values
         \<lparr>vl_values = [Derive 7], vl_host = ''db1.example.org'', vl_plugin = ''mysql'',
          vl_plugin_instance = ''shop'', vl_type = ''operations'',
          vl_type_instance = ''wsrep_apply_oool''\<rparr>],
      Inr 0) \<and>
   mysql_read_wsrep_stats ''monitor'' example_db
     (example_client [(wsrep_query, Stored [[Some ''wsrep_cluster_size'', Some ''3'']])]) =
     ([Query wsrep_query], Inr 0)"
  by (simp add: mysql_read_wsrep_stats_def exec_query_def example_client_def wsrep_row_def
      wsrep_metrics_def strcmp0_def cell_def ull_of_atoll_def atoll_def isspace_def isdigit_def
      LLONG_MAX_def derive_submit_def submit_def set_host_def example_db_def sstrncpy_def)

section \<open>The connection\<close>

text \<open>
  Claim C3, as stated, fails: after a failed handshake the handle that \<open>mysql_init\<close>
  returned is still stored in \<open>db->con\<close>. Here the database starts without a
  connection, \<open>mysql_init\<close> returns session 7 and \<open>mysql_real_connect\<close> fails.
\<close>

theorem failed_handshake_keeps_handle:
  "is_connected example_db = False \<and>
   fst (getconnection (example_client []\<lparr>real_connect_ok := False\<rparr>) example_db) = None \<and>
   con (fst (snd (getconnection (example_client []\<lparr>real_connect_ok := False\<rparr>) example_db))) =
     Some 7"
  by (simp add: getconnection_def example_client_def example_db_def)

text \<open>
  Claim C3, amended. When an attempt to connect is made and the handshake fails,
  \<open>getconnection\<close> returns \<open>NULL\<close>, the database is marked as not connected and the
  handle of the failed attempt stays stored. The next call, whatever the library answers
  then, does not ping that handle: it closes it, calls \<open>mysql_init\<close> again, and the
  state it leaves depends only on the configuration and on that new attempt.
\<close>

theorem failed_handshake:
  assumes "\<not> (is_connected db \<and> ping_status lib = 0)"
      and "init_result lib = Some h"
      and "\<not> real_connect_ok lib"
      and "db' = fst (snd (getconnection lib db))"
  shows "fst (getconnection lib db) = None \<and>
     db' = db\<lparr>is_connected := False, con := Some h\<rparr> \<and>
     (\<exists>rest. snd (snd (getconnection lib' db')) = Mysql_close h # Mysql_init # rest) \<and>
     fst (snd (getconnection lib' db')) =
       (if init_result lib' \<noteq> None \<and> real_connect_ok lib'
        then db\<lparr>con := init_result lib', mysql_version := server_version lib',
                 is_connected := True\<rparr>
        else db\<lparr>is_connected := False, con := init_result lib'\<rparr>)"
  using assms
  by (auto simp: getconnection_def Let_def split: option.splits)

theorem failed_handshake_witness:
  "fst (getconnection (example_client []\<lparr>real_connect_ok := False\<rparr>) example_db) = None \<and>
   fst (snd (getconnection (example_client []\<lparr>real_connect_ok := False\<rparr>) example_db)) =
     example_db\<lparr>is_connected := False, con := Some 7\<rparr> \<and>
   snd (snd (getconnection (example_client []\<lparr>init_result := Some 2\<rparr>)
     (example_db\<lparr>is_connected := False, con := Some 7\<rparr>))) =
     [Mysql_close 7, Mysql_init, Connect_timeout 2 0, Mysql_ssl_set 2, Mysql_real_connect 2] \<and>
   fst (snd (getconnection (example_client []\<lparr>init_result := Some 2\<rparr>)
     (example_db\<lparr>is_connected := False, con := Some 7\<rparr>))) =
     example_db\<lparr>con := Some 2, mysql_version := 50700, is_connected := True\<rparr>"
proof -
  have attempt:
    "\<not> (is_connected example_db \<and> ping_status (example_client []\<lparr>real_connect_ok := False\<rparr>) = 0)"
    "init_result (example_client []\<lparr>real_connect_ok := False\<rparr>) = Some 7"
    "\<not> real_connect_ok (example_client []\<lparr>real_connect_ok := False\<rparr>)"
    by (simp_all add: example_client_def example_db_def)
  have calls:
    "snd (snd (getconnection (example_client []\<lparr>init_result := Some 2\<rparr>)
       (example_db\<lparr>is_connected := False, con := Some 7\<rparr>))) =
     [Mysql_close 7, Mysql_init, Connect_timeout 2 0, Mysql_ssl_set 2, Mysql_real_connect 2]"
    by (simp add: getconnection_def example_client_def example_db_def)
  note next_call =
    failed_handshake [OF attempt refl, of "example_client []\<lparr>init_result := Some 2\<rparr>"]
  have left:
    "fst (snd (getconnection (example_client []\<lparr>real_connect_ok := False\<rparr>) example_db)) =
       example_db\<lparr>is_connected := False, con := Some 7\<rparr>"
    using next_call by simp
  have again:
    "fst (snd (getconnection (example_client []\<lparr>init_result := Some 2\<rparr>)
       (example_db\<lparr>is_connected := False, con := Some 7\<rparr>))) =
     example_db\<lparr>con := Some 2, mysql_version := 50700, is_connected := True\<rparr>"
    using next_call unfolding left by (simp add: example_client_def)
  show ?thesis
    using next_call left again calls by simp
qed

section \<open>The rows of the global status\<close>

text \<open>
  Claim C4. \<open>qcache_submit\<close> is what \<open>mysql_read\<close> does with the locals once the row
  loop has ended (lines 932 to 940). It submits something exactly when one of
  \<open>qcache_hits\<close>, \<open>qcache_inserts\<close>, \<open>qcache_not_cached\<close>, \<open>qcache_lowmem_prunes\<close> is
  not zero, and then it submits five values: the four counters as derive values, zero
  or not, and the number of queries in the cache as a gauge.
\<close>

theorem qcache_batch:
  "(dispatched (qcache_submit hn db l) \<noteq> []) =
     (qcache_hits l \<noteq> 0 \<or> qcache_inserts l \<noteq> 0 \<or> qcache_not_cached l \<noteq> 0 \<or>
      qcache_lowmem_prunes l \<noteq> 0) \<and>
   (dispatched (qcache_submit hn db l) \<noteq> [] \<longrightarrow>
      length (dispatched (qcache_submit hn db l)) = 5 \<and>
      map (\<lambda>vl. (vl_type vl, vl_type_instance vl, vl_values vl))
          (dispatched (qcache_submit hn db l)) =
        [(''cache_result'', ''qcache-hits'', [Derive (qcache_hits l)]),
         (''cache_result'', ''qcache-inserts'', [Derive (qcache_inserts l)]),
         (''cache_result'', ''qcache-not_cached'', [Derive (qcache_not_cached l)]),
         (''cache_result'', ''qcache-prunes'', [Derive (qcache_lowmem_prunes l)]),
         (''cache_size'', ''qcache'', [Gauge (qcache_queries_in_cache l)])])"
  by (simp add: qcache_submit_def dispatched_derive_submit dispatched_gauge_submit)

theorem qcache_batch_witness:
  "dispatched (qcache_submit ''monitor'' example_db (read_locals_init\<lparr>qcache_hits := 3\<rparr>)) \<noteq> [] \<and>
   map (\<lambda>vl. (vl_type vl, vl_type_instance vl, vl_values vl))
     (dispatched (qcache_submit ''monitor'' example_db (read_locals_init\<lparr>qcache_hits := 3\<rparr>))) =
     [(''cache_result'', ''qcache-hits'', [Derive 3]),
      (''cache_result'', ''qcache-inserts'', [Derive 0]),
      (''cache_result'', ''qcache-not_cached'', [Derive 0]),
      (''cache_result'', ''qcache-prunes'', [Derive 0]),
      (''cache_size'', ''qcache'', [Gauge NAN])] \<and>
   dispatched (qcache_submit ''monitor'' example_db read_locals_init) = []"
  using qcache_batch [of "''monitor''" example_db "read_locals_init\<lparr>qcache_hits := 3\<rparr>"]
    qcache_batch [of "''monitor''" example_db read_locals_init]
  by (simp add: read_locals_init_def)

text \<open>
  Claim C5. In the row loop of \<open>mysql_read\<close>, a key that begins with \<open>Com_stmt_\<close>
  submits nothing, whatever the value; any other key that begins with \<open>Com_\<close> submits,
  when the value is not zero, exactly one derive value of type \<open>mysql_commands\<close> whose
  type instance is the key without \<open>Com_\<close>; a key that begins with \<open>Com_\<close> submits
  nothing when the value is zero. The locals are left as they were.
\<close>

theorem com_rows:
  "mysql_read_row hn db (''Com_stmt_'' @ rest) val l = (l, []) \<and>
   (val \<noteq> 0 \<longrightarrow> take 5 suffix \<noteq> ''stmt_'' \<longrightarrow>
      fst (mysql_read_row hn db (''Com_'' @ suffix) val l) = l \<and>
      snd (mysql_read_row hn db (''Com_'' @ suffix) val l) =
        [Dispatch_values
           \<lparr>vl_values = [Derive val], vl_host = set_host hn db, vl_plugin = ''mysql'',
            vl_plugin_instance = instance_name db, vl_type = ''mysql_commands'',
            vl_type_instance = suffix\<rparr>]) \<and>
   mysql_read_row hn db (''Com_'' @ suffix) 0 l = (l, [])"
  by (simp add: mysql_read_row_def strncmp0_def strlen_def derive_submit_def submit_def
      sstrncpy_def eval_nat_numeral)

theorem com_rows_witness:
  "mysql_read_row ''monitor'' example_db ''Com_stmt_execute'' 9 read_locals_init =
     (read_locals_init, []) \<and>
   mysql_read_row ''monitor'' example_db ''Com_select'' 9 read_locals_init =
     (read_locals_init,
      [Dispatch_values
         \<lparr>vl_values = [Derive 9], vl_host = ''db1.example.org'', vl_plugin = ''mysql'',
          vl_plugin_instance = ''shop'', vl_type = ''mysql_commands'',
          vl_type_instance = ''select''\<rparr>]) \<and>
   mysql_read_row ''monitor'' example_db ''Com_select'' 0 read_locals_init =
     (read_locals_init, [])"
  using com_rows [of "''monitor''" example_db "''execute''" 9 read_locals_init "''select''"]
  by (simp add: prod_eq_iff set_host_def strcmp0_def sstrncpy_def example_db_def)

section \<open>The statement of the global status\<close>

lemma queries_getconnection: "queries (snd (snd (getconnection lib db))) = []"
  by (simp add: getconnection_def Let_def split: option.splits)

lemma status_query_of_cycle:
  assumes "getconnection lib db = (Some h, db1, connecting)"
  shows "mysql_version db1 =
           (if is_connected db \<and> ping_status lib = 0 then mysql_version db
            else server_version lib) \<and>
         (\<exists>later. queries (fst (mysql_read hn lib (Some db))) =
            status_query (mysql_version db1) # later)"
proof -
  have v: "mysql_version db1 =
           (if is_connected db \<and> ping_status lib = 0 then mysql_version db
            else server_version lib)"
    using assms by (auto simp: getconnection_def Let_def split: option.splits if_splits)
  have q: "queries connecting = []"
    using queries_getconnection [of lib db] assms by simp
  have "\<exists>later. queries (fst (mysql_read hn lib (Some db))) =
            status_query (mysql_version db1) # later"
    by (cases "query_answer lib (status_query (mysql_version db1))")
       (simp_all add: mysql_read_def assms exec_query_def q)
  with v show ?thesis by simp
qed

text \<open>
  Claim C6. The statement is \<open>SHOW STATUS\<close> for every version below 50002 and
  \<open>SHOW GLOBAL STATUS\<close> for every version from 50002 on, 50002 included. The version
  that decides is the one in the database record when \<open>getconnection\<close> returns: the
  version the server reported if the connection was made in this call, the version kept
  from the earlier connection if the ping succeeded. The statement so chosen is the first
  that \<open>mysql_read\<close> executes.
\<close>

theorem status_query_by_version:
  "(v < 50002 \<longrightarrow> status_query v = ''SHOW STATUS'') \<and>
   (50002 \<le> v \<longrightarrow> status_query v = ''SHOW GLOBAL STATUS'') \<and>
   status_query 50002 = ''SHOW GLOBAL STATUS'' \<and>
   (getconnection lib db = (Some h, db1, connecting) \<longrightarrow>
      mysql_version db1 =
        (if is_connected db \<and> ping_status lib = 0 then mysql_version db
         else server_version lib) \<and>
      (\<exists>later. queries (fst (mysql_read hn lib (Some db))) =
         status_query (mysql_version db1) # later))"
proof (intro conjI impI)
  show "status_query v = ''SHOW STATUS''" if "v < 50002"
    using that by (simp add: status_query_def)
  show "status_query v = ''SHOW GLOBAL STATUS''" if "50002 \<le> v"
    using that by (simp add: status_query_def)
  show "status_query 50002 = ''SHOW GLOBAL STATUS''"
    by (simp add: status_query_def)
  assume "getconnection lib db = (Some h, db1, connecting)"
  from status_query_of_cycle [OF this, of hn]
  show "mysql_version db1 =
          (if is_connected db \<and> ping_status lib = 0 then mysql_version db
           else server_version lib)"
    and "\<exists>later. queries (fst (mysql_read hn lib (Some db))) =
           status_query (mysql_version db1) # later"
    by blast+
qed

theorem status_query_by_version_witness:
  "status_query 50001 = ''SHOW STATUS'' \<and>
   status_query 50002 = ''SHOW GLOBAL STATUS'' \<and>
   status_query 50700 = ''SHOW GLOBAL STATUS'' \<and>
   queries (fst (mysql_read ''monitor'' (example_client []) (Some example_db))) =
     [''SHOW GLOBAL STATUS''] \<and>
   queries (fst (mysql_read ''monitor'' (example_client []\<lparr>server_version := 40122\<rparr>)
     (Some example_db))) = [''SHOW STATUS'']"
proof -
  have connected:
    "getconnection (example_client []) example_db =
       (Some 7, example_db\<lparr>con := Some 7, mysql_version := 50700, is_connected := True\<rparr>,
        [Mysql_init, Connect_timeout 7 0, Mysql_ssl_set 7, Mysql_real_connect 7])"
    "getconnection (example_client []\<lparr>server_version := 40122\<rparr>) example_db =
       (Some 7, example_db\<lparr>con := Some 7, mysql_version := 40122, is_connected := True\<rparr>,
        [Mysql_init, Connect_timeout 7 0, Mysql_ssl_set 7, Mysql_real_connect 7])"
    by (simp_all add: getconnection_def example_client_def example_db_def)
  have asked:
    "queries (fst (mysql_read ''monitor'' (example_client []) (Some example_db))) =
       [''SHOW GLOBAL STATUS'']"
    "queries (fst (mysql_read ''monitor'' (example_client []\<lparr>server_version := 40122\<rparr>)
       (Some example_db))) = [''SHOW STATUS'']"
    by (simp_all add: mysql_read_def connected exec_query_def status_query_def)
       (simp_all add: example_client_def)
  show ?thesis
    using status_query_by_version [of 50001] status_query_by_version [of 50700] asked
    by simp
qed

section \<open>Parsing a value\<close>











section \<open>The host name of what is dispatched\<close>

lemma hosts_Nil [simp]: "hosts [] = {}"
  by (simp add: hosts_def)

lemma hosts_append [simp]: "hosts (xs @ ys) = hosts xs \<union> hosts ys"
  by (auto simp: hosts_def)

lemma hosts_Cons:
  "hosts (e # es) =
     (case e of Dispatch_values vl \<Rightarrow> {vl_host vl} | Dispatch_notification n \<Rightarrow> {n_host n}
      | _ \<Rightarrow> {}) \<union> hosts es"
  by (cases e) (auto simp: hosts_def)

lemma hosts_submit: "hosts (submit hn t ti vs db) = {set_host hn db}"
  by (simp add: submit_def hosts_def)

lemma hosts_derive_submit [simp]: "hosts (derive_submit hn t ti v db) = {set_host hn db}"
  by (simp add: derive_submit_def hosts_submit)

lemma hosts_gauge_submit [simp]: "hosts (gauge_submit hn t ti v db) = {set_host hn db}"
  by (simp add: gauge_submit_def hosts_submit)

lemma hosts_traffic_submit [simp]: "hosts (traffic_submit hn rx tx db) = {set_host hn db}"
  by (simp add: traffic_submit_def hosts_submit)

lemma fst_then_run:
  "fst (then_run m f) = fst m @ (case snd m of Inl _ \<Rightarrow> [] | Inr a \<Rightarrow> fst (f a))"
  by (cases m; cases "snd m") (auto simp: then_run_def split: prod.splits)

lemma hosts_then_run:
  assumes "hosts (fst m) \<subseteq> H" and "\<And>a. snd m = Inr a \<Longrightarrow> hosts (fst (f a)) \<subseteq> H"
  shows "hosts (fst (then_run m f)) \<subseteq> H"
  using assms by (cases "snd m") (simp_all add: fst_then_run)

lemma hosts_exec_query [simp]: "hosts (snd (exec_query lib q)) = {}"
  by (cases "query_answer lib q") (simp_all add: exec_query_def hosts_Cons)

lemma hosts_getconnection: "hosts (snd (snd (getconnection lib db))) = {}"
  by (simp add: getconnection_def Let_def hosts_Cons split: option.splits)

lemma set_host_cong:
  "alias_name db' = alias_name db \<Longrightarrow> host db' = host db \<Longrightarrow> set_host hn db' = set_host hn db"
  by (auto simp: set_host_def split: option.splits)

lemma getconnection_keeps:
  "alias_name (fst (snd (getconnection lib db))) = alias_name db"
  "host (fst (snd (getconnection lib db))) = host db"
  by (simp_all add: getconnection_def Let_def split: option.splits)

lemma hosts_innodb_bpool_row: "hosts (innodb_bpool_row hn db key val) \<subseteq> {set_host hn db}"
  by (simp add: innodb_bpool_row_def)

lemma hosts_innodb_data_row: "hosts (innodb_data_row hn db key val) \<subseteq> {set_host hn db}"
  by (simp add: innodb_data_row_def)

lemma hosts_sort_row: "hosts (sort_row hn db key val) \<subseteq> {set_host hn db}"
  by (simp add: sort_row_def)

lemma hosts_mysql_read_row: "hosts (snd (mysql_read_row hn db key val l)) \<subseteq> {set_host hn db}"
  using hosts_innodb_bpool_row [of hn db key val] hosts_innodb_data_row [of hn db key val]
    hosts_sort_row [of hn db key val]
  by (simp add: mysql_read_row_def)

lemma hosts_mysql_read_rows: "hosts (fst (mysql_read_rows hn db rows l)) \<subseteq> {set_host hn db}"
proof (induction rows arbitrary: l)
  case Nil
  show ?case by simp
next
  case (Cons row rows)
  show ?case
    using hosts_mysql_read_row [of hn db _ _ l] Cons.IH
    by (simp add: fst_then_run case_prod_beta split: option.splits)
qed


lemma hosts_metric_rows:
  "hosts (innodb_row hn db key val) \<subseteq> {set_host hn db}"
  "hosts (wsrep_row hn db key val) \<subseteq> {set_host hn db}"
  by (simp_all add: innodb_row_def wsrep_row_def split: option.splits ds_type.splits)

lemma hosts_innodb_rows: "hosts (fst (innodb_rows hn db rows)) \<subseteq> {set_host hn db}"
  using hosts_metric_rows(1) [of hn db]
  by (induction rows) (simp_all add: fst_then_run split: option.splits)

lemma hosts_wsrep_rows: "hosts (fst (wsrep_rows hn db rows)) \<subseteq> {set_host hn db}"
  using hosts_metric_rows(2) [of hn db]
  by (induction rows) (simp_all add: fst_then_run split: option.splits)

lemma hosts_mysql_read_innodb_stats:
  "hosts (fst (mysql_read_innodb_stats hn db lib)) \<subseteq> {set_host hn db}"
  using hosts_innodb_rows [of hn db] hosts_exec_query [of lib]
  by (simp add: mysql_read_innodb_stats_def Let_def case_prod_beta fst_then_run
      split: option.splits sum.splits)

lemma hosts_mysql_read_wsrep_stats:
  "hosts (fst (mysql_read_wsrep_stats hn db lib)) \<subseteq> {set_host hn db}"
  using hosts_wsrep_rows [of hn db] hosts_exec_query [of lib]
  by (simp add: mysql_read_wsrep_stats_def Let_def case_prod_beta fst_then_run
      split: option.splits list.splits sum.splits)

lemma hosts_mysql_read_primary_stats:
  "hosts (fst (mysql_read_primary_stats hn db lib)) \<subseteq> {set_host hn db}"
  using hosts_exec_query [of lib]
  by (simp add: mysql_read_primary_stats_def Let_def case_prod_beta
      split: option.splits list.splits)

lemma hosts_replica_stats_values:
  "hosts (fst (replica_stats_values hn db row)) \<subseteq> {set_host hn db}"
  by (simp add: replica_stats_values_def Let_def split: option.splits)

lemma hosts_replica_notif_step:
  "hosts (snd (replica_notif_step hn db row)) \<subseteq> {set_host hn db}"
  by (simp add: replica_notif_step_def Let_def case_prod_beta replica_notify_io_told
      replica_notify_sql_told replica_notify_io_n hosts_Cons replica_notification_def)

lemma hosts_mysql_read_replica_stats:
  "hosts (fst (mysql_read_replica_stats hn db lib)) \<subseteq> {set_host hn db}"
  using hosts_exec_query [of lib] hosts_replica_stats_values [of hn db]
    hosts_replica_notif_step [of hn db]
  by (simp add: mysql_read_replica_stats_def Let_def case_prod_beta fst_then_run
      split: option.splits list.splits sum.splits)

lemma replica_result_db:
  assumes "snd (mysql_read_replica_stats hn db lib) = Inr (r, db')"
  shows "\<exists>a b. db' = db\<lparr>replica_io_running := a, replica_sql_running := b\<rparr>"
proof -
  have same: "db = db\<lparr>replica_io_running := replica_io_running db,
                     replica_sql_running := replica_sql_running db\<rparr>"
    by simp
  have "db' = db \<or> (\<exists>row. db' = fst (replica_notif_step hn db row))"
    using assms
    by (auto simp: mysql_read_replica_stats_def Let_def case_prod_beta then_run_def
        split: option.splits list.splits if_splits sum.splits prod.splits)
  then show ?thesis
    using same replica_notif_step_db by metis
qed


lemma flags_self: "\<exists>x y. db = db\<lparr>replica_io_running := x, replica_sql_running := y\<rparr>"
  by (rule exI [of _ "replica_io_running db"], rule exI [of _ "replica_sql_running db"]) simp

lemma hosts_optional_stats:
  "hosts (fst (optional_stats hn db lib)) \<subseteq> {set_host hn db}"
  unfolding optional_stats_def
proof (intro hosts_then_run)
  show "hosts (fst (if 50600 \<le> mysql_version db \<and> innodb_stats db
          then mysql_read_innodb_stats hn db lib else ([], Inr 0))) \<subseteq> {set_host hn db}"
    using hosts_mysql_read_innodb_stats [of hn db lib] by simp
  show "hosts (fst (if primary_stats db
          then mysql_read_primary_stats hn db lib else ([], Inr 0))) \<subseteq> {set_host hn db}"
    using hosts_mysql_read_primary_stats [of hn db lib] by simp
  show "hosts (fst (if replica_stats db \<or> replica_notif db
          then mysql_read_replica_stats hn db lib else ([], Inr (0, db)))) \<subseteq> {set_host hn db}"
    using hosts_mysql_read_replica_stats [of hn db lib] by simp
next
  fix a :: int and b :: int and c :: "int \<times> mysql_database_t"
  assume "snd (if replica_stats db \<or> replica_notif db
          then mysql_read_replica_stats hn db lib else ([], Inr (0, db))) = Inr c"
  then have "\<exists>x y. snd c = db\<lparr>replica_io_running := x, replica_sql_running := y\<rparr>"
  proof (cases "replica_stats db \<or> replica_notif db")
    case True
    then show ?thesis
      using replica_result_db [of hn db lib "fst c" "snd c"]
        \<open>snd (if replica_stats db \<or> replica_notif db
          then mysql_read_replica_stats hn db lib else ([], Inr (0, db))) = Inr c\<close>
      by simp
  next
    case False
    have "snd c = db"
      using False
        \<open>snd (if replica_stats db \<or> replica_notif db
          then mysql_read_replica_stats hn db lib else ([], Inr (0, db))) = Inr c\<close>
      by auto
    then show ?thesis
      using flags_self [of db] by simp
  qed
  then have h: "set_host hn (snd c) = set_host hn db"
    by (auto intro: set_host_cong)
  show "hosts (fst (case c of (_, db') \<Rightarrow>
          then_run (if wsrep_stats db' then mysql_read_wsrep_stats hn db' lib else ([], Inr 0))
            (\<lambda>_. ([], Inr db')))) \<subseteq> {set_host hn db}"
    using hosts_mysql_read_wsrep_stats [of hn "snd c" lib] h
    by (simp add: case_prod_beta fst_then_run split: sum.splits)
qed

lemma hosts_qcache_threads:
  "hosts (qcache_submit hn db l) \<subseteq> {set_host hn db}"
  "hosts (threads_submit hn db l) \<subseteq> {set_host hn db}"
  by (simp_all add: qcache_submit_def threads_submit_def)

lemma hosts_mysql_read:
  "hosts (fst (mysql_read hn lib (Some db))) \<subseteq> {set_host hn db}"
proof -
  obtain c db1 connecting where g: "getconnection lib db = (c, db1, connecting)"
    by (cases "getconnection lib db") auto
  have h: "set_host hn db1 = set_host hn db"
    using getconnection_keeps [of lib db] g by (auto intro: set_host_cong)
  have e: "hosts connecting = {}"
    using hosts_getconnection [of lib db] g by simp
  show ?thesis
  proof (cases c)
    case None
    then show ?thesis by (simp add: mysql_read_def g e)
  next
    case (Some handle)
    show ?thesis
    proof (cases "fst (exec_query lib (status_query (mysql_version db1)))")
      case None
      then show ?thesis
        by (simp add: mysql_read_def g Some e case_prod_beta)
    next
      case (Some rows)
      have "hosts (fst (
          then_run (connecting @ snd (exec_query lib (status_query (mysql_version db1))), Inr ()) (\<lambda>_.
          then_run (mysql_read_rows hn db1 rows read_locals_init) (\<lambda>l.
          then_run (qcache_submit hn db1 l @ threads_submit hn db1 l @
                    traffic_submit hn (traffic_incoming l) (traffic_outgoing l) db1, Inr ()) (\<lambda>_.
          then_run (optional_stats hn db1 lib) (\<lambda>db2.
          ([], Inr (0, Some db2)))))))) \<subseteq> {set_host hn db1}"
        using hosts_mysql_read_rows [of hn db1 rows] hosts_qcache_threads [of hn db1]
          hosts_optional_stats [of hn db1 lib]
        by (intro hosts_then_run) (simp_all add: e)
      then show ?thesis
        using \<open>c = Some handle\<close> Some
        by (simp add: mysql_read_def g case_prod_beta h)
    qed
  qed
qed

lemma set_host_resolved:
  "set_host hn db =
     (case alias_name db of
        Some a \<Rightarrow> a
      | None \<Rightarrow>
          if host db = None \<or> host db = Some [] \<or> host db = Some ''127.0.0.1'' \<or>
             host db = Some ''localhost''
          then hn else the (host db))"
  by (auto simp: set_host_def sstrncpy_def strcmp0_def split: option.splits)

text \<open>
  Claim C7. The host name that \<open>set_host\<close> writes is the alias when there is one;
  without an alias it is \<open>hostname_g\<close> when the host is not set, is empty, is
  \<open>127.0.0.1\<close> or is \<open>localhost\<close>, and the configured host otherwise. \<open>submit\<close> puts
  this name on the value list, and every value and every notification that a call of
  \<open>mysql_read\<close> dispatches carries it. So with an empty host and no alias everything is
  dispatched under \<open>hostname_g\<close>, and nothing under the empty string as long as
  \<open>hostname_g\<close> itself is not empty.
\<close>

theorem host_label:
  "set_host hn db =
     (case alias_name db of
        Some a \<Rightarrow> a
      | None \<Rightarrow>
          if host db = None \<or> host db = Some [] \<or> host db = Some ''127.0.0.1'' \<or>
             host db = Some ''localhost''
          then hn else the (host db)) \<and>
   hosts (submit hn type type_instance vals db) = {set_host hn db} \<and>
   hosts (fst (mysql_read hn lib (Some db))) \<subseteq> {set_host hn db} \<and>
   (alias_name db = None \<longrightarrow> host db = Some [] \<longrightarrow> hn \<noteq> [] \<longrightarrow>
      set_host hn db = hn \<and> [] \<notin> hosts (fst (mysql_read hn lib (Some db))))"
proof (intro conjI impI)
  show "set_host hn db =
     (case alias_name db of
        Some a \<Rightarrow> a
      | None \<Rightarrow>
          if host db = None \<or> host db = Some [] \<or> host db = Some ''127.0.0.1'' \<or>
             host db = Some ''localhost''
          then hn else the (host db))"
    by (rule set_host_resolved)
  show "hosts (submit hn type type_instance vals db) = {set_host hn db}"
    by (rule hosts_submit)
  show all: "hosts (fst (mysql_read hn lib (Some db))) \<subseteq> {set_host hn db}"
    by (rule hosts_mysql_read)
  assume "alias_name db = None" "host db = Some []" "hn \<noteq> []"
  then show h: "set_host hn db = hn"
    by (simp add: set_host_resolved)
  show "[] \<notin> hosts (fst (mysql_read hn lib (Some db)))"
    using all h \<open>hn \<noteq> []\<close> by auto
qed

theorem host_label_witness:
  "set_host ''monitor'' (example_db\<lparr>host := Some []\<rparr>) = ''monitor'' \<and>
   [] \<notin> hosts (fst (mysql_read ''monitor'' (example_client example_answers)
            (Some (example_db\<lparr>host := Some []\<rparr>)))) \<and>
   set_host ''monitor'' (example_db\<lparr>alias_name := Some ''shopdb''\<rparr>) = ''shopdb'' \<and>
   set_host ''monitor'' example_db = ''db1.example.org''"
proof -
  have loopback: "alias_name (example_db\<lparr>host := Some []\<rparr>) = None"
    "host (example_db\<lparr>host := Some []\<rparr>) = Some []" "''monitor'' \<noteq> []"
    by (simp_all add: example_db_def)
  show ?thesis
    using host_label [of "''monitor''" "example_db\<lparr>host := Some []\<rparr>" _ _ _
        "example_client example_answers"] loopback
      host_label [of "''monitor''" "example_db\<lparr>alias_name := Some ''shopdb''\<rparr>"]
      host_label [of "''monitor''" example_db]
    by (simp add: example_db_def)
qed

section \<open>The optional readers\<close>

lemma submit_flags [simp]:
  "submit hn t ti vs (db\<lparr>replica_io_running := a, replica_sql_running := b\<rparr>) =
     submit hn t ti vs db"
  using set_host_cong [of "db\<lparr>replica_io_running := a, replica_sql_running := b\<rparr>" db hn]
  by (simp add: submit_def)

lemma wsrep_row_flags [simp]:
  "wsrep_row hn (db\<lparr>replica_io_running := a, replica_sql_running := b\<rparr>) key val =
     wsrep_row hn db key val"
  by (simp add: wsrep_row_def gauge_submit_def derive_submit_def
      split: option.splits ds_type.splits)

lemma wsrep_rows_flags [simp]:
  "wsrep_rows hn (db\<lparr>replica_io_running := a, replica_sql_running := b\<rparr>) rows =
     wsrep_rows hn db rows"
  by (induction rows) (simp_all split: option.splits)

lemma mysql_read_wsrep_stats_flags [simp]:
  "mysql_read_wsrep_stats hn (db\<lparr>replica_io_running := a, replica_sql_running := b\<rparr>) lib =
     mysql_read_wsrep_stats hn db lib"
  by (simp add: mysql_read_wsrep_stats_def Let_def case_prod_beta
      split: option.splits list.splits)

lemma failed_queries:
  assumes "\<forall>res. query_answer lib q \<noteq> Stored res"
  shows "exec_query lib q = (None, [Query q])"
  using assms by (cases "query_answer lib q") (simp_all add: exec_query_def)

lemma optional_stats_parts:
  assumes "innodb = (if 50600 \<le> mysql_version db \<and> innodb_stats db
                     then mysql_read_innodb_stats hn db lib else ([], Inr 0))"
      and "primary = (if primary_stats db
                      then mysql_read_primary_stats hn db lib else ([], Inr 0))"
      and "replica = (if replica_stats db \<or> replica_notif db
                      then mysql_read_replica_stats hn db lib else ([], Inr (0, db)))"
      and "wsrep = (if wsrep_stats db
                    then mysql_read_wsrep_stats hn db lib else ([], Inr 0))"
      and "snd innodb = Inr r1" and "snd primary = Inr r2"
      and "snd replica = Inr (r3, db')" and "snd wsrep = Inr r4"
  shows "optional_stats hn db lib =
           (fst innodb @ fst primary @ fst replica @ fst wsrep, Inr db')"
proof -
  have "\<exists>x y. db' = db\<lparr>replica_io_running := x, replica_sql_running := y\<rparr>"
  proof (cases "replica_stats db \<or> replica_notif db")
    case True
    then show ?thesis
      using replica_result_db [of hn db lib r3 db'] assms(3,7) by simp
  next
    case False
    then have "db' = db"
      using assms(3,7) by simp
    then show ?thesis
      using flags_self [of db] by simp
  qed
  then obtain x y where db': "db' = db\<lparr>replica_io_running := x, replica_sql_running := y\<rparr>"
    by blast
  have w: "(if wsrep_stats db' then mysql_read_wsrep_stats hn db' lib else ([], Inr 0)) = wsrep"
    by (simp add: db' assms(4))
  show ?thesis
    unfolding optional_stats_def assms(1,2,3) [symmetric]
    by (simp add: then_run_ok [OF assms(5)] then_run_ok [OF assms(6)] then_run_ok [OF assms(7)]
        w then_run_ok [OF assms(8)])
qed


lemma failed_readers:
  "\<forall>res. query_answer lib (innodb_query (mysql_version db)) \<noteq> Stored res \<Longrightarrow>
     mysql_read_innodb_stats hn db lib = ([Query (innodb_query (mysql_version db))], Inr (- 1))"
  "\<forall>res. query_answer lib ''SHOW MASTER STATUS'' \<noteq> Stored res \<Longrightarrow>
     mysql_read_primary_stats hn db lib = ([Query ''SHOW MASTER STATUS''], Inr (- 1))"
  "\<forall>res. query_answer lib ''SHOW SLAVE STATUS'' \<noteq> Stored res \<Longrightarrow>
     mysql_read_replica_stats hn db lib = ([Query ''SHOW SLAVE STATUS''], Inr (- 1, db))"
  "\<forall>res. query_answer lib wsrep_query \<noteq> Stored res \<Longrightarrow>
     mysql_read_wsrep_stats hn db lib = ([Query wsrep_query], Inr (- 1))"
  by (simp_all add: mysql_read_innodb_stats_def mysql_read_primary_stats_def
      mysql_read_replica_stats_def mysql_read_wsrep_stats_def failed_queries)

text \<open>
  Claim C8. Take a cycle that has its connection, whose global status statement is
  answered and whose rows are classified. Each of the four optional readers that is
  switched on is then run, on the state the connection left, whatever the readers before
  it returned: the effects of the cycle are those of the main phase followed by the
  effects of the InnoDB reader, of the primary reader, of the replica reader and of the
  wsrep reader, each as it runs on its own, and \<open>mysql_read\<close> returns 0. A reader whose
  statement fails contributes its query and nothing else, and returns \<open>-1\<close>, which
  \<open>mysql_read\<close> drops. (The readers are assumed not to meet a \<open>NULL\<close> cell where they
  need a string.)
\<close>

theorem optional_failures_do_not_stop_the_cycle:
  assumes "getconnection lib db = (Some h, db1, connecting)"
      and "query_answer lib (status_query (mysql_version db1)) = Stored rows"
      and "mysql_read_rows hn db1 rows read_locals_init = (submitted, Inr l)"
      and "innodb = (if 50600 \<le> mysql_version db1 \<and> innodb_stats db1
                     then mysql_read_innodb_stats hn db1 lib else ([], Inr 0))"
      and "primary = (if primary_stats db1
                      then mysql_read_primary_stats hn db1 lib else ([], Inr 0))"
      and "replica = (if replica_stats db1 \<or> replica_notif db1
                      then mysql_read_replica_stats hn db1 lib else ([], Inr (0, db1)))"
      and "wsrep = (if wsrep_stats db1
                    then mysql_read_wsrep_stats hn db1 lib else ([], Inr 0))"
      and "snd innodb = Inr r1" and "snd primary = Inr r2"
      and "snd replica = Inr (r3, db2)" and "snd wsrep = Inr r4"
  shows "mysql_read hn lib (Some db) =
           (connecting @ [Query (status_query (mysql_version db1))] @ submitted @
            qcache_submit hn db1 l @ threads_submit hn db1 l @
            traffic_submit hn (traffic_incoming l) (traffic_outgoing l) db1 @
            fst innodb @ fst primary @ fst replica @ fst wsrep,
            Inr (0, Some db2)) \<and>
         ((\<forall>res. query_answer lib (innodb_query (mysql_version db1)) \<noteq> Stored res) \<longrightarrow>
            mysql_read_innodb_stats hn db1 lib =
              ([Query (innodb_query (mysql_version db1))], Inr (- 1))) \<and>
         ((\<forall>res. query_answer lib ''SHOW MASTER STATUS'' \<noteq> Stored res) \<longrightarrow>
            mysql_read_primary_stats hn db1 lib = ([Query ''SHOW MASTER STATUS''], Inr (- 1))) \<and>
         ((\<forall>res. query_answer lib ''SHOW SLAVE STATUS'' \<noteq> Stored res) \<longrightarrow>
            mysql_read_replica_stats hn db1 lib =
              ([Query ''SHOW SLAVE STATUS''], Inr (- 1, db1))) \<and>
         ((\<forall>res. query_answer lib wsrep_query \<noteq> Stored res) \<longrightarrow>
            mysql_read_wsrep_stats hn db1 lib = ([Query wsrep_query], Inr (- 1)))"
proof -
  have opt: "optional_stats hn db1 lib =
           (fst innodb @ fst primary @ fst replica @ fst wsrep, Inr db2)"
    by (rule optional_stats_parts [OF assms(4-11)])
  have "mysql_read hn lib (Some db) =
           (connecting @ [Query (status_query (mysql_version db1))] @ submitted @
            qcache_submit hn db1 l @ threads_submit hn db1 l @
            traffic_submit hn (traffic_incoming l) (traffic_outgoing l) db1 @
            fst innodb @ fst primary @ fst replica @ fst wsrep,
            Inr (0, Some db2))"
    by (simp add: mysql_read_def assms(1,3) exec_query_Stored [OF assms(2)] opt)
  then show ?thesis
    using failed_readers [where lib = lib and db = db1 and hn = hn] by blast
qed

theorem optional_failures_do_not_stop_the_cycle_witness:
  "snd (mysql_read ''monitor'' (example_client example_answers) (Some example_db)) =
     Inr (0, Some (example_db\<lparr>con := Some 7, mysql_version := 50700, is_connected := True\<rparr>)) \<and>
   queries (fst (mysql_read ''monitor'' (example_client example_answers) (Some example_db))) =
     [''SHOW GLOBAL STATUS'', innodb_query 50700, ''SHOW MASTER STATUS'', ''SHOW SLAVE STATUS'',
      wsrep_query] \<and>
   map (\<lambda>vl. (vl_type vl, vl_type_instance vl, vl_values vl))
     (dispatched (fst (mysql_read ''monitor'' (example_client example_answers)
        (Some example_db)))) =
     [(''uptime'', [], [Gauge (Double_of_ull 100)]),
      (''mysql_octets'', [], [Derive 0, Derive 0]),
      (''mysql_log_position'', ''master-bin'', [Derive 154]),
      (''bool'', ''slave-sql-running'', [Gauge (Double_of_ull 1)]),
      (''bool'', ''slave-io-running'', [Gauge (Double_of_ull 1)]),
      (''mysql_log_position'', ''slave-read'', [Derive 107]),
      (''mysql_log_position'', ''slave-exec'', [Derive 107]),
      (''time_offset'', [], [Gauge (Double_of_atof ''0'')]),
      (''gauge'', ''wsrep_cluster_size'', [Gauge (Double_of_ull 3)])]"
proof -
  let ?lib = "example_client example_answers"
  let ?db1 = "example_db\<lparr>con := Some 7, mysql_version := 50700, is_connected := True\<rparr>"
  have flags: "innodb_stats example_db" "primary_stats example_db"
    "replica_stats example_db" "replica_notif example_db" "wsrep_stats example_db"
    "replica_io_running example_db" "replica_sql_running example_db"
    by (simp_all add: example_db_def)
  have answers:
    "query_answer ?lib ''SHOW GLOBAL STATUS'' = Stored [[Some ''Uptime'', Some ''100'']]"
    "query_answer ?lib ''SHOW MASTER STATUS'' = Stored [[Some ''bin.000001'', Some ''154'']]"
    "query_answer ?lib ''SHOW SLAVE STATUS'' =
       Stored (example_replica_row (Some ''Yes'') (Some ''Yes'') # [])"
    "query_answer ?lib wsrep_query =
       Stored [[Some ''wsrep_ready'', Some ''ON''], [Some ''wsrep_cluster_size'', Some ''3'']]"
    "\<forall>res. query_answer ?lib (innodb_query 50700) \<noteq> Stored res"
    by (simp_all add: example_client_def example_answers_def wsrep_query_def innodb_query_def)
  have numbers: "ull_of_atoll ''100'' = 100" "ull_of_atoll ''154'' = 154"
    "ull_of_atoll ''107'' = 107" "ull_of_atoll ''3'' = 3"
    by (simp_all add: ull_of_atoll_def atoll_def isspace_def isdigit_def LLONG_MAX_def)
  have yes: "strcasecmp0 ''Yes'' ''yes''"
    by code_simp
  have g: "getconnection ?lib example_db =
      (Some 7, ?db1, [Mysql_init, Connect_timeout 7 0, Mysql_ssl_set 7, Mysql_real_connect 7])"
    by (simp add: getconnection_def example_client_def example_db_def)
  have q: "query_answer ?lib (status_query (mysql_version ?db1)) =
      Stored [[Some ''Uptime'', Some ''100'']]"
    by (simp add: flags status_query_def answers)
  have r: "mysql_read_rows ''monitor'' ?db1 [[Some ''Uptime'', Some ''100'']] read_locals_init =
      (gauge_submit ''monitor'' ''uptime'' None (Double_of_ull 100) ?db1, Inr read_locals_init)"
    by (simp add: cell_def numbers mysql_read_row_def strncmp0_def strlen_def strcmp0_def)
  have i: "mysql_read_innodb_stats ''monitor'' ?db1 ?lib = ([Query (innodb_query 50700)], Inr (- 1))"
    using failed_readers(1) [of ?lib ?db1 "''monitor''"] answers(5) by simp
  have p: "mysql_read_primary_stats ''monitor'' ?db1 ?lib =
      (Query ''SHOW MASTER STATUS'' #
         derive_submit ''monitor'' ''mysql_log_position'' (Some ''master-bin'') 154 ?db1, Inr 0)"
    by (simp add: mysql_read_primary_stats_def exec_query_Stored [OF answers(2)]
        mysql_num_fields_def cell_def numbers)
  have cells: "cell (example_replica_row (Some ''Yes'') (Some ''Yes'')) SECONDS_BEHIND_MASTER_IDX = Some ''0''"
    by (simp add: example_replica_row_def cell_def nth_append SECONDS_BEHIND_MASTER_IDX_def)
  have rp: "mysql_read_replica_stats ''monitor'' ?db1 ?lib =
      (Query ''SHOW SLAVE STATUS'' #
         gauge_submit ''monitor'' ''bool'' (Some ''slave-sql-running'') (Double_of_ull 1) ?db1 @
         gauge_submit ''monitor'' ''bool'' (Some ''slave-io-running'') (Double_of_ull 1) ?db1 @
         derive_submit ''monitor'' ''mysql_log_position'' (Some ''slave-read'') 107 ?db1 @
         derive_submit ''monitor'' ''mysql_log_position'' (Some ''slave-exec'') 107 ?db1 @
         gauge_submit ''monitor'' ''time_offset'' None (Double_of_atof ''0'') ?db1,
       Inr (0, ?db1))"
    by (simp add: mysql_read_replica_stats_def exec_query_Stored [OF answers(3)]
        mysql_num_fields_def example_replica_row_cells flags replica_stats_values_def
        replica_notif_step_def replica_notify_io_def replica_notify_sql_def cells yes
        double_of_bool_def numbers)
  have w: "mysql_read_wsrep_stats ''monitor'' ?db1 ?lib =
      (Query wsrep_query #
         gauge_submit ''monitor'' ''gauge'' (Some ''wsrep_cluster_size'') (Double_of_ull 3) ?db1,
       Inr 0)"
    by (simp add: mysql_read_wsrep_stats_def exec_query_Stored [OF answers(4)] cell_def
        numbers wsrep_row_def wsrep_metrics_def strcmp0_def)
  have returns:
    "snd (if 50600 \<le> mysql_version ?db1 \<and> innodb_stats ?db1
          then mysql_read_innodb_stats ''monitor'' ?db1 ?lib else ([], Inr 0)) = Inr (- 1)"
    "snd (if primary_stats ?db1
          then mysql_read_primary_stats ''monitor'' ?db1 ?lib else ([], Inr 0)) = Inr 0"
    "snd (if replica_stats ?db1 \<or> replica_notif ?db1
          then mysql_read_replica_stats ''monitor'' ?db1 ?lib else ([], Inr (0, ?db1))) =
       Inr (0, ?db1)"
    "snd (if wsrep_stats ?db1
          then mysql_read_wsrep_stats ''monitor'' ?db1 ?lib else ([], Inr 0)) = Inr 0"
    by (simp_all add: flags i p rp w)
  note cycle = optional_failures_do_not_stop_the_cycle [OF g q r refl refl refl refl returns,
      THEN conjunct1]
  have l: "qcache_submit ''monitor'' ?db1 read_locals_init = []"
    "threads_submit ''monitor'' ?db1 read_locals_init = []"
    "traffic_incoming read_locals_init = 0" "traffic_outgoing read_locals_init = 0"
    by (simp_all add: qcache_submit_def threads_submit_def read_locals_init_def)
  show ?thesis
    unfolding cycle
    by (simp add: flags i p rp w l status_query_def dispatched_gauge_submit
        dispatched_derive_submit traffic_submit_def dispatched_submit)
qed

end
